theory Spec2Isabelle
  imports Complex_Main
begin

section \<open>Values of the host language\<close>

text \<open>
  A JavaScript \<open>Date\<close> is its number of milliseconds since the epoch, read on the single
  store-local clock (no time zone, no daylight saving). An instant that does not parse
  (\<open>Invalid Date\<close>, whose time value is \<open>NaN\<close>) is \<open>None\<close> where the source can produce one;
  every comparison with it is false.
\<close>

type_synonym date = int

definition msPerMinute :: int where
  "msPerMinute = 60000"

definition msPerDay :: int where
  "msPerDay = 86400000"

definition addMinutes :: "date \<Rightarrow> int \<Rightarrow> date" where
  "addMinutes d n = d + n * msPerMinute"

definition startOfDay :: "date \<Rightarrow> date" where
  "startOfDay d = d - d mod msPerDay"

definition endOfDay :: "date \<Rightarrow> date" where
  "endOfDay d = startOfDay d + msPerDay - 1"

text \<open>
  A \<open>Date\<close> object as a caller hands it to the booking service: an instant, or
  \<open>Invalid Date\<close> (\<open>new Date\<close> of a string that does not parse). Either comparison of an
  invalid date with an instant is false, and adding minutes to it gives an invalid date.
\<close>

datatype JSDate = Instant date | InvalidDate

definition addMinutesDate :: "JSDate \<Rightarrow> int \<Rightarrow> JSDate" where
  "addMinutesDate d n = (case d of Instant t \<Rightarrow> Instant (addMinutes t n) | InvalidDate \<Rightarrow> InvalidDate)"

definition dateBefore :: "JSDate \<Rightarrow> date \<Rightarrow> bool" where
  "dateBefore d bound = (case d of Instant t \<Rightarrow> t < bound | InvalidDate \<Rightarrow> False)"

definition dateAfter :: "JSDate \<Rightarrow> date \<Rightarrow> bool" where
  "dateAfter d bound = (case d of Instant t \<Rightarrow> t > bound | InvalidDate \<Rightarrow> False)"

text \<open>\<open>Date.getDay\<close>: 0 is Sunday; the epoch day was a Thursday.\<close>

definition getDay :: "date \<Rightarrow> int" where
  "getDay d = (d div msPerDay + 4) mod 7"

text \<open>Truthiness of an optional string (\<open>if (barberId)\<close>): set and not empty.\<close>

definition truthy :: "string option \<Rightarrow> bool" where
  "truthy s = (case s of None \<Rightarrow> False | Some v \<Rightarrow> v \<noteq> [])"

section \<open>Business-hours utilities (types/index.ts)\<close>

record BusinessHours =
  bh_storeId :: string
  dayOfWeek :: int
  openTime :: string
  closeTime :: string
  isClosed :: bool

text \<open>\<open>String.split\<close> on one separator character.\<close>

fun split :: "char \<Rightarrow> string \<Rightarrow> string list" where
  "split c [] = [[]]"
| "split c (x # xs) =
     (if x = c then [] # split c xs
      else (case split c xs of [] \<Rightarrow> [[x]] | p # ps \<Rightarrow> (x # p) # ps))"

definition isDigit :: "char \<Rightarrow> bool" where
  "isDigit c = (c \<in> set ''0123456789'')"

definition digitValue :: "char \<Rightarrow> int" where
  "digitValue c = int (of_char c) - 48"

text \<open>
  \<open>Number\<close> applied to a string, on the strings an \<open>HH:mm\<close> field holds: a run of decimal
  digits is its value and the empty string is 0. Any other string is \<open>NaN\<close> here
  (\<open>None\<close>); JavaScript also reads signs, blanks, fractions, exponents and radix prefixes,
  none of which occur in an \<open>HH:mm\<close> field.
\<close>

definition Number :: "string \<Rightarrow> int option" where
  "Number s = (if list_all isDigit s
               then Some (foldl (\<lambda>n c. 10 * n + digitValue c) 0 s) else None)"

text \<open>
  \<open>const [hours, minutes] = timeString.split(':').map(Number)\<close>: a missing second
  component is \<open>undefined\<close>, and the sum is \<open>NaN\<close>.
\<close>

definition timeToMinutes :: "string \<Rightarrow> int option" where
  "timeToMinutes timeString =
     (case split CHR '':'' timeString of
        h # m # _ \<Rightarrow>
          (case (Number h, Number m) of
             (Some hours, Some minutes) \<Rightarrow> Some (hours * 60 + minutes)
           | _ \<Rightarrow> None)
      | _ \<Rightarrow> None)"

definition digitChar :: "nat \<Rightarrow> char" where
  "digitChar n = ''0123456789'' ! n"

function showNat :: "nat \<Rightarrow> string" where
  "showNat n = (if n < 10 then [digitChar n] else showNat (n div 10) @ [digitChar (n mod 10)])"
  by pat_completeness auto
termination
  by (relation "measure id") auto

declare showNat.simps [simp del]

text \<open>\<open>Number.toString\<close> of an integer.\<close>

definition toString :: "int \<Rightarrow> string" where
  "toString i = (if i < 0 then CHR ''-'' # showNat (nat (- i)) else showNat (nat i))"

definition padStart :: "nat \<Rightarrow> char \<Rightarrow> string \<Rightarrow> string" where
  "padStart n c s = replicate (n - length s) c @ s"

text \<open>The remainder operator \<open>%\<close> takes the sign of the dividend.\<close>

definition jsRem :: "int \<Rightarrow> int \<Rightarrow> int" where
  "jsRem a b = (if a < 0 then - ((- a) mod \<bar>b\<bar>) else a mod \<bar>b\<bar>)"

definition minutesToTime :: "int \<Rightarrow> string" where
  "minutesToTime minutes =
     (let hours = minutes div 60; mins = jsRem minutes 60
      in padStart 2 CHR ''0'' (toString hours) @ '':'' @ padStart 2 CHR ''0'' (toString mins))"

text \<open>
  The spec's overlap test of two half-open intervals, \<open>aStart < bEnd && bStart < aEnd\<close>.
\<close>

definition intervalsOverlap :: "int \<Rightarrow> int \<Rightarrow> int \<Rightarrow> int \<Rightarrow> bool" where
  "intervalsOverlap aStart aEnd bStart bEnd = (aStart < bEnd \<and> bStart < aEnd)"

text \<open>\<open>isTimeRangeOverlap\<close>: a comparison with \<open>NaN\<close> is false.\<close>

definition isTimeRangeOverlap :: "string \<Rightarrow> string \<Rightarrow> string \<Rightarrow> string \<Rightarrow> bool" where
  "isTimeRangeOverlap start1 end1 start2 end2 =
     (case (timeToMinutes start1, timeToMinutes end1, timeToMinutes start2, timeToMinutes end2) of
        (Some start1Minutes, Some end1Minutes, Some start2Minutes, Some end2Minutes) \<Rightarrow>
          start1Minutes < end2Minutes \<and> start2Minutes < end1Minutes
      | _ \<Rightarrow> False)"

text \<open>
  The loop of \<open>getAvailableTimeSlots\<close>:
  \<^verbatim>\<open>for (let minutes = openMinutes; minutes + serviceDuration <= closeMinutes; minutes += slotInterval)\<close>.
  With a step that is not positive it need not end, so not returning is \<open>None\<close>.
\<close>

partial_function (option) slotLoop :: "int \<Rightarrow> int \<Rightarrow> int \<Rightarrow> int \<Rightarrow> string list \<Rightarrow> string list option"
where
  "slotLoop closeMinutes serviceDuration slotInterval minutes slots =
     (if minutes + serviceDuration \<le> closeMinutes
      then slotLoop closeMinutes serviceDuration slotInterval (minutes + slotInterval)
             (slots @ [minutesToTime minutes])
      else Some slots)"

text \<open>
  \<open>getAvailableTimeSlots(businessHours, serviceDuration, slotInterval = 30)\<close>. When a time
  is \<open>NaN\<close> the loop condition is false at once.
\<close>

definition getAvailableTimeSlots :: "BusinessHours \<Rightarrow> int \<Rightarrow> int option \<Rightarrow> string list option" where
  "getAvailableTimeSlots businessHours serviceDuration slotInterval =
     (if isClosed businessHours then Some []
      else (case (timeToMinutes (openTime businessHours), timeToMinutes (closeTime businessHours)) of
              (Some openMinutes, Some closeMinutes) \<Rightarrow>
                slotLoop closeMinutes serviceDuration
                  (case slotInterval of None \<Rightarrow> 30 | Some i \<Rightarrow> i) openMinutes []
            | _ \<Rightarrow> Some []))"

section \<open>Stored data\<close>

datatype BookingStatus = Confirmed | Cancelled | Completed

record Service =
  service_id :: string
  service_storeId :: string
  service_name :: string
  duration :: int
  service_isActive :: bool

record Barber =
  barber_id :: string
  barber_storeId :: string
  barber_name :: string
  barber_isActive :: bool

record Booking =
  booking_id :: string
  booking_storeId :: string
  booking_barberId :: string
  booking_serviceId :: string
  booking_customerName :: string
  booking_startTime :: date
  booking_endTime :: date
  booking_status :: BookingStatus

text \<open>
  The tables the services query through the ORM, each as the list of its rows in storage
  order: \<open>findMany\<close> without \<open>orderBy\<close> filters the list, \<open>findFirst\<close> takes the first row
  that matches.
\<close>

record Database =
  services :: "Service list"
  businessHoursTable :: "BusinessHours list"
  barbers :: "Barber list"
  bookings :: "Booking list"

section \<open>Messages\<close>

text \<open>
  The source's user-facing texts, one constructor each:
  \<^item> \<open>ServiceNotFound\<close>, \<open>ServiceSuspended\<close>: the service does not exist in the store; is not active;
  \<^item> \<open>NoBusinessHours\<close>, \<open>ClosedDay\<close>, \<open>BusinessHoursAre open close\<close>: no hours are set for
    the weekday; the weekday is a rest day; the interval leaves the hours, which are quoted;
  \<^item> \<open>BarberNotFound\<close>, \<open>BarberSuspended\<close>, \<open>BarberBookedAt hhmm\<close>: the barber does not exist
    in the store; is not active; has another booking, whose start is quoted as \<open>HH:mm\<close>;
  \<^item> \<open>AllBarbersBooked\<close>: every barber is booked at that time;
  \<^item> \<open>ConflictCheckFailed\<close>: an error occurred while the conflicts were checked (the text
    of the \<open>catch\<close> in \<open>checkBookingConflicts\<close>);
  \<^item> \<open>DurationNotInteger\<close>, \<open>DurationNotPositive\<close>, \<open>DurationTooLong\<close>,
    \<open>DurationNotMultipleOf15\<close>: the four rejections of \<open>validateServiceTime\<close>;
  \<^item> \<open>BookingTooSoon\<close>, \<open>BookingTooFar\<close>: the two rejections of \<open>validateBookingTime\<close>;
  \<^item> \<open>NoBarberAvailable\<close>, \<open>BookingNotFound\<close>, \<open>CreateFailed\<close>, \<open>UpdateFailed\<close>: the booking
    service's own failures.
\<close>

datatype Message =
    ServiceNotFound | ServiceSuspended
  | NoBusinessHours | ClosedDay | BusinessHoursAre string string
  | BarberNotFound | BarberSuspended | BarberBookedAt string
  | AllBarbersBooked | ConflictCheckFailed
  | DurationNotInteger | DurationNotPositive | DurationTooLong | DurationNotMultipleOf15
  | BookingTooSoon | BookingTooFar
  | NoBarberAvailable | BookingNotFound | CreateFailed | UpdateFailed

section \<open>Conflict detection (ConflictDetectionService)\<close>

datatype ConflictType = time_overlap | outside_business_hours | barber_unavailable | service_unavailable

record Alternative =
  alt_barberId :: string
  alt_barberName :: string
  alt_startTime :: date
  alt_endTime :: date

record ConflictCheckResult =
  hasConflict :: bool
  conflictType :: "ConflictType option"
  conflictDetails :: "Message option"
  suggestedAlternatives :: "Alternative list option"

record BookingConflictCheck =
  check_storeId :: string
  check_barberId :: "string option"
  check_serviceId :: string
  check_startTime :: date
  check_endTime :: date
  excludeBookingId :: "string option"

record Availability =
  isAvailable :: bool
  reason :: "Message option"

record HoursCheck =
  isWithinHours :: bool
  hours_reason :: "Message option"

record Validation =
  isValid :: bool
  error :: "Message option"

definition checkServiceAvailability :: "Database \<Rightarrow> string \<Rightarrow> string \<Rightarrow> Availability" where
  "checkServiceAvailability db storeId serviceId =
     (case find (\<lambda>s. service_id s = serviceId \<and> service_storeId s = storeId) (services db) of
        None \<Rightarrow> \<lparr>isAvailable = False, reason = Some ServiceNotFound\<rparr>
      | Some service \<Rightarrow>
          if \<not> service_isActive service
          then \<lparr>isAvailable = False, reason = Some ServiceSuspended\<rparr>
          else \<lparr>isAvailable = True, reason = None\<rparr>)"

text \<open>
  Modelled from the spec: \<open>parseISO\<close> and \<open>format\<close> of the date library are not in the
  sources. \<open>parseISO(`${dateStr}T${hhmm}:00`)\<close>, with \<open>dateStr\<close> the calendar day of
  \<open>day\<close>, is the start of that day plus the minutes the \<open>HH:mm\<close> field names; a field that
  does not read as a time gives an invalid date.
\<close>

definition dateAt :: "date \<Rightarrow> string \<Rightarrow> date option" where
  "dateAt day hhmm = map_option (\<lambda>m. addMinutes (startOfDay day) m) (timeToMinutes hhmm)"

text \<open>
  Modelled from the spec: \<open>isWithinInterval\<close> of the date library is not in the sources.
  It is the spec's inclusive containment \<open>start <= point <= end\<close>, false when a bound is
  an invalid date.
\<close>

definition isWithinInterval :: "date \<Rightarrow> date option \<Rightarrow> date option \<Rightarrow> bool" where
  "isWithinInterval t start end' =
     (case (start, end') of (Some s, Some e) \<Rightarrow> s \<le> t \<and> t \<le> e | _ \<Rightarrow> False)"

definition checkBusinessHours :: "Database \<Rightarrow> string \<Rightarrow> date \<Rightarrow> date \<Rightarrow> HoursCheck" where
  "checkBusinessHours db storeId startTime endTime =
     (case find (\<lambda>h. bh_storeId h = storeId \<and> dayOfWeek h = getDay startTime)
             (businessHoursTable db) of
        None \<Rightarrow> \<lparr>isWithinHours = False, hours_reason = Some NoBusinessHours\<rparr>
      | Some businessHours \<Rightarrow>
          if isClosed businessHours
          then \<lparr>isWithinHours = False, hours_reason = Some ClosedDay\<rparr>
          else
            let businessStart = dateAt startTime (openTime businessHours);
                businessEnd = dateAt startTime (closeTime businessHours);
                isStartWithinHours = isWithinInterval startTime businessStart businessEnd;
                isEndWithinHours = isWithinInterval endTime businessStart businessEnd
            in if \<not> isStartWithinHours \<or> \<not> isEndWithinHours
               then \<lparr>isWithinHours = False,
                     hours_reason = Some (BusinessHoursAre (openTime businessHours)
                                            (closeTime businessHours))\<rparr>
               else \<lparr>isWithinHours = True, hours_reason = None\<rparr>)"

text \<open>
  The \<open>OR\<close> of the conflict query, on one stored booking \<open>[bStart, bEnd]\<close> and the candidate
  \<open>[startTime, endTime]\<close>.
\<close>

definition conflictClause :: "date \<Rightarrow> date \<Rightarrow> date \<Rightarrow> date \<Rightarrow> bool" where
  "conflictClause bStart bEnd startTime endTime =
     ((bStart \<le> startTime \<and> bEnd > startTime)
      \<or> (bStart < endTime \<and> bEnd \<ge> endTime)
      \<or> (bStart \<ge> startTime \<and> bEnd \<le> endTime))"

text \<open>
  The whole \<open>whereClause\<close> of \<open>checkBarberAvailability\<close>; the \<open>id\<close> condition is added only
  when \<open>excludeBookingId\<close> is truthy.
\<close>

definition whereClause :: "string \<Rightarrow> string \<Rightarrow> date \<Rightarrow> date \<Rightarrow> string option \<Rightarrow> Booking \<Rightarrow> bool" where
  "whereClause storeId barberId startTime endTime excludeId b =
     (booking_storeId b = storeId
      \<and> booking_barberId b = barberId
      \<and> booking_status b \<noteq> Cancelled
      \<and> conflictClause (booking_startTime b) (booking_endTime b) startTime endTime
      \<and> (if truthy excludeId then booking_id b \<noteq> the excludeId else True))"

definition conflictingBookings :: "Database \<Rightarrow> string \<Rightarrow> string \<Rightarrow> date \<Rightarrow> date \<Rightarrow> string option \<Rightarrow> Booking list" where
  "conflictingBookings db storeId barberId startTime endTime excludeId =
     filter (whereClause storeId barberId startTime endTime excludeId) (bookings db)"

text \<open>\<open>format(date, 'HH:mm')\<close>: the time of day on the local clock.\<close>

definition formatHHmm :: "date \<Rightarrow> string" where
  "formatHHmm d = minutesToTime ((d mod msPerDay) div msPerMinute)"

definition checkBarberAvailability :: "Database \<Rightarrow> string \<Rightarrow> string \<Rightarrow> date \<Rightarrow> date \<Rightarrow> string option \<Rightarrow> Availability" where
  "checkBarberAvailability db storeId barberId startTime endTime excludeId =
     (case find (\<lambda>b. barber_id b = barberId \<and> barber_storeId b = storeId) (barbers db) of
        None \<Rightarrow> \<lparr>isAvailable = False, reason = Some BarberNotFound\<rparr>
      | Some barber \<Rightarrow>
          if \<not> barber_isActive barber
          then \<lparr>isAvailable = False, reason = Some BarberSuspended\<rparr>
          else (case conflictingBookings db storeId barberId startTime endTime excludeId of
                  [] \<Rightarrow> \<lparr>isAvailable = True, reason = None\<rparr>
                | c # _ \<Rightarrow>
                    \<lparr>isAvailable = False,
                     reason = Some (BarberBookedAt (formatHHmm (booking_startTime c)))\<rparr>))"

text \<open>The loop of \<open>findAvailableBarbers\<close> over the active barbers of the store.\<close>

fun availableAmong :: "Database \<Rightarrow> string \<Rightarrow> date \<Rightarrow> date \<Rightarrow> string option \<Rightarrow> Barber list \<Rightarrow> Alternative list" where
  "availableAmong db storeId startTime endTime excludeId [] = []"
| "availableAmong db storeId startTime endTime excludeId (barber # rest) =
     (if isAvailable (checkBarberAvailability db storeId (barber_id barber) startTime endTime excludeId)
      then \<lparr>alt_barberId = barber_id barber, alt_barberName = barber_name barber,
            alt_startTime = startTime, alt_endTime = endTime\<rparr>
           # availableAmong db storeId startTime endTime excludeId rest
      else availableAmong db storeId startTime endTime excludeId rest)"

definition findAvailableBarbers :: "Database \<Rightarrow> string \<Rightarrow> date \<Rightarrow> date \<Rightarrow> string option \<Rightarrow> Alternative list" where
  "findAvailableBarbers db storeId startTime endTime excludeId =
     availableAmong db storeId startTime endTime excludeId
       (filter (\<lambda>b. barber_storeId b = storeId \<and> barber_isActive b) (barbers db))"

text \<open>
  The loop of \<open>findAlternativeBarbers\<close> over the shifted slots: the results of each scan
  are appended, and the loop is left once five alternatives are held.
\<close>

fun scanSlots :: "Database \<Rightarrow> string \<Rightarrow> string option \<Rightarrow> Alternative list \<Rightarrow> (date \<times> date) list \<Rightarrow> Alternative list" where
  "scanSlots db storeId excludeId alternatives [] = alternatives"
| "scanSlots db storeId excludeId alternatives ((start, end') # timeSlots) =
     (let alternatives' = alternatives @ findAvailableBarbers db storeId start end' excludeId
      in if length alternatives' \<ge> 5 then alternatives'
         else scanSlots db storeId excludeId alternatives' timeSlots)"

definition findAlternativeBarbers :: "Database \<Rightarrow> string \<Rightarrow> date \<Rightarrow> date \<Rightarrow> string option \<Rightarrow> Alternative list" where
  "findAlternativeBarbers db storeId preferredStartTime preferredEndTime excludeId =
     (let sameTimeAlternatives =
            findAvailableBarbers db storeId preferredStartTime preferredEndTime excludeId;
          alternatives =
            (if sameTimeAlternatives = []
             then scanSlots db storeId excludeId sameTimeAlternatives
                    [(addMinutes preferredStartTime (- 30), addMinutes preferredEndTime (- 30)),
                     (addMinutes preferredStartTime 30, addMinutes preferredEndTime 30),
                     (addMinutes preferredStartTime (- 60), addMinutes preferredEndTime (- 60)),
                     (addMinutes preferredStartTime 60, addMinutes preferredEndTime 60)]
             else sameTimeAlternatives)
      in take 5 alternatives)"

text \<open>
  \<open>checkBookingConflicts\<close>. Its \<open>catch\<close> answers a failure of the storage layer; the
  tables here are values, so no query fails.
\<close>

definition checkBookingConflicts :: "Database \<Rightarrow> BookingConflictCheck \<Rightarrow> ConflictCheckResult" where
  "checkBookingConflicts db check =
     (let storeId = check_storeId check; barberId = check_barberId check;
          serviceId = check_serviceId check; startTime = check_startTime check;
          endTime = check_endTime check; excludeId = excludeBookingId check;
          serviceCheck = checkServiceAvailability db storeId serviceId
      in if \<not> isAvailable serviceCheck
         then \<lparr>hasConflict = True, conflictType = Some service_unavailable,
               conflictDetails = reason serviceCheck, suggestedAlternatives = None\<rparr>
         else
           let businessHoursCheck = checkBusinessHours db storeId startTime endTime
           in if \<not> isWithinHours businessHoursCheck
              then \<lparr>hasConflict = True, conflictType = Some outside_business_hours,
                    conflictDetails = hours_reason businessHoursCheck,
                    suggestedAlternatives = None\<rparr>
              else if truthy barberId
              then
                let barberCheck =
                      checkBarberAvailability db storeId (the barberId) startTime endTime excludeId
                in if \<not> isAvailable barberCheck
                   then \<lparr>hasConflict = True, conflictType = Some barber_unavailable,
                         conflictDetails = reason barberCheck,
                         suggestedAlternatives =
                           Some (findAlternativeBarbers db storeId startTime endTime excludeId)\<rparr>
                   else \<lparr>hasConflict = False, conflictType = None, conflictDetails = None,
                         suggestedAlternatives = None\<rparr>
              else if findAvailableBarbers db storeId startTime endTime excludeId = []
              then \<lparr>hasConflict = True, conflictType = Some time_overlap,
                    conflictDetails = Some AllBarbersBooked, suggestedAlternatives = None\<rparr>
              else \<lparr>hasConflict = False, conflictType = None, conflictDetails = None,
                    suggestedAlternatives = None\<rparr>)"

text \<open>
  \<open>validateServiceTime(duration: number)\<close>, on a rational \<open>duration\<close>.
  \<open>Number.isInteger\<close> is the first test; the remainder is taken of an integer.
\<close>

definition validateServiceTime :: "rat \<Rightarrow> Validation" where
  "validateServiceTime d =
     (if of_int \<lfloor>d\<rfloor> \<noteq> d then \<lparr>isValid = False, error = Some DurationNotInteger\<rparr>
      else if d \<le> 0 then \<lparr>isValid = False, error = Some DurationNotPositive\<rparr>
      else if d > 480 then \<lparr>isValid = False, error = Some DurationTooLong\<rparr>
      else if jsRem \<lfloor>d\<rfloor> 15 \<noteq> 0 then \<lparr>isValid = False, error = Some DurationNotMultipleOf15\<rparr>
      else \<lparr>isValid = True, error = None\<rparr>)"

text \<open>
  \<open>validateBookingTime(startTime)\<close>; \<open>now\<close> is the clock reading \<open>new Date()\<close> of the call.
  Both tests are comparisons of \<open>Date\<close> objects, false on an invalid \<open>startTime\<close>.
\<close>

definition validateBookingTime :: "date \<Rightarrow> JSDate \<Rightarrow> Validation" where
  "validateBookingTime now startTime =
     (let minBookingTime = addMinutes now 30
      in if dateBefore startTime minBookingTime
         then \<lparr>isValid = False, error = Some BookingTooSoon\<rparr>
         else
           let maxBookingTime = addMinutes now (90 * 24 * 60)
           in if dateAfter startTime maxBookingTime
              then \<lparr>isValid = False, error = Some BookingTooFar\<rparr>
              else \<lparr>isValid = True, error = None\<rparr>)"

section \<open>Calendar queries (CalendarService)\<close>

text \<open>
  A calendar day given as a \<open>YYYY-MM-DD\<close> string is the instant of its midnight; \<open>dateAt\<close>
  reads a time of that day.
\<close>

record TimeSlot =
  slot_startTime :: date
  slot_endTime :: date
  slot_barberId :: string
  slot_barberName :: string
  slot_isAvailable :: bool

record AvailabilityQuery =
  query_storeId :: string
  query_date :: date
  query_serviceId :: string
  query_barberId :: "string option"
  query_duration :: "int option"

datatype CalendarError = ServiceNotFoundError

definition getBusinessHours :: "Database \<Rightarrow> string \<Rightarrow> date \<Rightarrow> (string \<times> string) option" where
  "getBusinessHours db storeId day =
     (case find (\<lambda>h. bh_storeId h = storeId \<and> dayOfWeek h = getDay day \<and> \<not> isClosed h)
             (businessHoursTable db) of
        None \<Rightarrow> None
      | Some businessHours \<Rightarrow> Some (openTime businessHours, closeTime businessHours))"

definition getAvailableBarbers :: "Database \<Rightarrow> string \<Rightarrow> string option \<Rightarrow> Barber list" where
  "getAvailableBarbers db storeId barberId =
     filter (\<lambda>b. barber_storeId b = storeId \<and> barber_isActive b
                 \<and> (if truthy barberId then barber_id b = the barberId else True))
       (barbers db)"

definition getExistingBookings :: "Database \<Rightarrow> string \<Rightarrow> date \<Rightarrow> string list \<Rightarrow> Booking list" where
  "getExistingBookings db storeId day barberIds =
     filter (\<lambda>b. booking_storeId b = storeId
                 \<and> booking_barberId b \<in> set barberIds
                 \<and> booking_status b \<noteq> Cancelled
                 \<and> startOfDay day \<le> booking_startTime b
                 \<and> booking_startTime b \<le> endOfDay day)
       (bookings db)"

text \<open>
  The \<open>while (currentTime < businessEnd)\<close> loop of \<open>generateBarberTimeSlots\<close>, stepping by
  30 minutes.
\<close>

function barberSlotLoop :: "Barber \<Rightarrow> date \<Rightarrow> int \<Rightarrow> Booking list \<Rightarrow> date \<Rightarrow> TimeSlot list" where
  "barberSlotLoop barber businessEnd serviceDuration existingBookings currentTime =
     (if currentTime < businessEnd
      then
        (let slotEnd = addMinutes currentTime serviceDuration
         in (if slotEnd \<le> businessEnd
             then [\<lparr>slot_startTime = currentTime, slot_endTime = slotEnd,
                    slot_barberId = barber_id barber, slot_barberName = barber_name barber,
                    slot_isAvailable =
                      (\<not> list_ex (\<lambda>booking. currentTime < booking_endTime booking
                                            \<and> slotEnd > booking_startTime booking)
                           existingBookings)\<rparr>]
             else [])
            @ barberSlotLoop barber businessEnd serviceDuration existingBookings
                (addMinutes currentTime 30))
      else [])"
  by pat_completeness auto
termination
  by (relation "measure (\<lambda>(barber, businessEnd, serviceDuration, existingBookings, currentTime).
                            nat (businessEnd - currentTime))")
     (auto simp: addMinutes_def msPerMinute_def)

declare barberSlotLoop.simps [simp del]

text \<open>With an invalid opening or closing time the loop condition is false at once.\<close>

definition generateBarberTimeSlots :: "Barber \<Rightarrow> date \<Rightarrow> string \<times> string \<Rightarrow> int \<Rightarrow> Booking list \<Rightarrow> TimeSlot list" where
  "generateBarberTimeSlots barber day businessHours serviceDuration existingBookings =
     (case (dateAt day (fst businessHours), dateAt day (snd businessHours)) of
        (Some businessStart, Some businessEnd) \<Rightarrow>
          barberSlotLoop barber businessEnd serviceDuration existingBookings businessStart
      | _ \<Rightarrow> [])"

text \<open>
  \<open>CalendarService.getAvailableTimeSlots\<close>, the slot listing. \<open>duration || service.duration\<close>
  takes the service's duration when the query's is absent or 0. \<open>Array.sort\<close> is stable.
\<close>

definition calendarGetAvailableTimeSlots :: "Database \<Rightarrow> AvailabilityQuery \<Rightarrow> CalendarError + TimeSlot list" where
  "calendarGetAvailableTimeSlots db query =
     (let storeId = query_storeId query; day = query_date query
      in case find (\<lambda>s. service_id s = query_serviceId query \<and> service_storeId s = storeId
                        \<and> service_isActive s) (services db) of
           None \<Rightarrow> Inl ServiceNotFoundError
         | Some service \<Rightarrow>
             let serviceDuration =
                   (case query_duration query of
                      None \<Rightarrow> duration service
                    | Some d \<Rightarrow> if d = 0 then duration service else d)
             in (case getBusinessHours db storeId day of
                   None \<Rightarrow> Inr []
                 | Some businessHours \<Rightarrow>
                     let barbers = getAvailableBarbers db storeId (query_barberId query)
                     in if barbers = [] then Inr []
                        else
                          let existingBookings =
                                getExistingBookings db storeId day (map barber_id barbers);
                              availableSlots =
                                concat (map (\<lambda>barber.
                                  generateBarberTimeSlots barber day businessHours serviceDuration
                                    (filter (\<lambda>b. booking_barberId b = barber_id barber)
                                       existingBookings)) barbers)
                          in Inr (sort_key slot_startTime availableSlots)))"

definition isTimeSlotAvailable :: "Database \<Rightarrow> string \<Rightarrow> string \<Rightarrow> date \<Rightarrow> date \<Rightarrow> bool" where
  "isTimeSlotAvailable db storeId barberId startTime endTime =
     (case getBusinessHours db storeId (startOfDay startTime) of
        None \<Rightarrow> False
      | Some businessHours \<Rightarrow>
          let businessStart = dateAt startTime (fst businessHours);
              businessEnd = dateAt startTime (snd businessHours)
          in if \<not> isWithinInterval startTime businessStart businessEnd
                \<or> \<not> isWithinInterval endTime businessStart businessEnd
             then False
             else filter (\<lambda>b. booking_storeId b = storeId
                              \<and> booking_barberId b = barberId
                              \<and> booking_status b \<noteq> Cancelled
                              \<and> conflictClause (booking_startTime b) (booking_endTime b)
                                    startTime endTime)
                    (bookings db) = [])"

section \<open>Creating and updating bookings (BookingService)\<close>

text \<open>
  Of a request, the fields the checks read and the customer's name; contact data and notes
  are carried to the row unchanged and are left out. The start of a creation request is
  the \<open>Date\<close> object the caller built, which may be invalid (the public booking route
  builds it from the body and does not test it); the start of an update, when given, is
  an instant (both callers of \<open>updateBooking\<close> refuse an invalid date first).
\<close>

record CreateBookingRequest =
  create_storeId :: string
  create_barberId :: "string option"
  create_serviceId :: string
  create_startTime :: JSDate
  create_customerName :: string

record UpdateBookingRequest =
  update_bookingId :: string
  update_barberId :: "string option"
  update_serviceId :: "string option"
  update_startTime :: "date option"
  update_customerName :: "string option"
  update_status :: "BookingStatus option"

record BookingSummary =
  summary_id :: string
  summary_barberId :: string
  summary_barberName :: string
  summary_serviceName :: string
  summary_startTime :: date
  summary_endTime :: date
  summary_customerName :: string
  summary_status :: BookingStatus

record BookingResult =
  success :: bool
  booking :: "BookingSummary option"
  result_error :: "Message option"
  alternatives :: "Alternative list option"

definition failure :: "Message option \<Rightarrow> Alternative list option \<Rightarrow> BookingResult" where
  "failure e alts = \<lparr>success = False, booking = None, result_error = e, alternatives = alts\<rparr>"

definition findAvailableBarber :: "Database \<Rightarrow> string \<Rightarrow> date \<Rightarrow> date \<Rightarrow> (string \<times> string) list" where
  "findAvailableBarber db storeId startTime endTime =
     map (\<lambda>b. (barber_id b, barber_name b))
       (filter (\<lambda>b. isTimeSlotAvailable db storeId (barber_id b) startTime endTime)
          (filter (\<lambda>b. barber_storeId b = storeId \<and> barber_isActive b) (barbers db)))"

text \<open>
  The summary returned with a stored row: the names come from the rows the booking refers
  to. A reference that does not resolve makes the ORM call fail, which the caller's
  \<open>catch\<close> answers.
\<close>

definition summarise :: "Database \<Rightarrow> Booking \<Rightarrow> BookingSummary option" where
  "summarise db b =
     (case (find (\<lambda>x. barber_id x = booking_barberId b) (barbers db),
            find (\<lambda>x. service_id x = booking_serviceId b) (services db)) of
        (Some barber, Some service) \<Rightarrow>
          Some \<lparr>summary_id = booking_id b, summary_barberId = booking_barberId b,
                summary_barberName = barber_name barber,
                summary_serviceName = service_name service,
                summary_startTime = booking_startTime b, summary_endTime = booking_endTime b,
                summary_customerName = booking_customerName b,
                summary_status = booking_status b\<rparr>
      | _ \<Rightarrow> None)"

text \<open>
  \<open>findAvailableBarber\<close> on \<open>Date\<close> objects that may be invalid. With an invalid start,
  \<open>format(startTime, 'yyyy-MM-dd')\<close> in \<open>isTimeSlotAvailable\<close> throws (the date library's
  \<open>format\<close> refuses an invalid date) and its \<open>catch\<close> returns false; with an invalid end
  alone the end is not within the hours. Either way no barber is available.
\<close>

definition findAvailableBarberAt :: "Database \<Rightarrow> string \<Rightarrow> JSDate \<Rightarrow> JSDate \<Rightarrow> (string \<times> string) list" where
  "findAvailableBarberAt db storeId startTime endTime =
     (case startTime of
        InvalidDate \<Rightarrow> []
      | Instant s \<Rightarrow>
          (case endTime of
             InvalidDate \<Rightarrow> []
           | Instant e \<Rightarrow> findAvailableBarber db storeId s e))"

text \<open>
  \<open>checkBookingConflicts\<close> on \<open>Date\<close> objects that may be invalid. On instants it is the
  function above. With an invalid start the service check runs as usual; then
  \<open>format(startTime, 'yyyy-MM-dd')\<close> in \<open>checkBusinessHours\<close> throws, and the \<open>catch\<close> of
  \<open>checkBookingConflicts\<close> returns its own result. With an invalid end alone, the end is
  not within the hours of the day.
\<close>

definition checkBookingConflictsAt :: "Database \<Rightarrow> string \<Rightarrow> string option \<Rightarrow> string \<Rightarrow> JSDate \<Rightarrow> JSDate \<Rightarrow> string option \<Rightarrow> ConflictCheckResult" where
  "checkBookingConflictsAt db storeId barberId serviceId startTime endTime excludeId =
     (let serviceCheck = checkServiceAvailability db storeId serviceId
      in case startTime of
           InvalidDate \<Rightarrow>
             if \<not> isAvailable serviceCheck
             then \<lparr>hasConflict = True, conflictType = Some service_unavailable,
                   conflictDetails = reason serviceCheck, suggestedAlternatives = None\<rparr>
             else \<lparr>hasConflict = True, conflictType = Some time_overlap,
                   conflictDetails = Some ConflictCheckFailed, suggestedAlternatives = None\<rparr>
         | Instant s \<Rightarrow>
             (case endTime of
                Instant e \<Rightarrow>
                  checkBookingConflicts db
                    \<lparr>check_storeId = storeId, check_barberId = barberId,
                     check_serviceId = serviceId, check_startTime = s, check_endTime = e,
                     excludeBookingId = excludeId\<rparr>
              | InvalidDate \<Rightarrow>
                  if \<not> isAvailable serviceCheck
                  then \<lparr>hasConflict = True, conflictType = Some service_unavailable,
                        conflictDetails = reason serviceCheck, suggestedAlternatives = None\<rparr>
                  else \<lparr>hasConflict = True, conflictType = Some outside_business_hours,
                        conflictDetails =
                          (case find (\<lambda>h. bh_storeId h = storeId \<and> dayOfWeek h = getDay s)
                                  (businessHoursTable db) of
                             None \<Rightarrow> Some NoBusinessHours
                           | Some businessHours \<Rightarrow>
                               if isClosed businessHours then Some ClosedDay
                               else Some (BusinessHoursAre (openTime businessHours)
                                            (closeTime businessHours))),
                        suggestedAlternatives = None\<rparr>))"

text \<open>
  The closing step of \<open>createBooking\<close>: the store's \<open>create\<close> and the summary of the new
  row, \<open>newId\<close> being the key the store gives it. The store refuses an invalid date and a
  key already in use, which the \<open>catch\<close> of \<open>createBooking\<close> answers.
\<close>

definition insertBooking :: "Database \<Rightarrow> string \<Rightarrow> string \<Rightarrow> string \<Rightarrow> string \<Rightarrow> string \<Rightarrow> JSDate \<Rightarrow> JSDate \<Rightarrow> BookingResult \<times> Database" where
  "insertBooking db newId storeId barberId serviceId customerName startTime endTime =
     (case startTime of
        InvalidDate \<Rightarrow> (failure (Some CreateFailed) None, db)
      | Instant s \<Rightarrow>
          (case endTime of
             InvalidDate \<Rightarrow> (failure (Some CreateFailed) None, db)
           | Instant e \<Rightarrow>
               let row = \<lparr>booking_id = newId, booking_storeId = storeId,
                          booking_barberId = barberId, booking_serviceId = serviceId,
                          booking_customerName = customerName,
                          booking_startTime = s, booking_endTime = e,
                          booking_status = Confirmed\<rparr>
               in if newId \<in> booking_id ` set (bookings db)
                  then (failure (Some CreateFailed) None, db)
                  else (case summarise db row of
                          None \<Rightarrow> (failure (Some CreateFailed) None, db)
                        | Some summary \<Rightarrow>
                            (\<lparr>success = True, booking = Some summary, result_error = None,
                              alternatives = None\<rparr>,
                             db\<lparr>bookings := bookings db @ [row]\<rparr>))))"

text \<open>
  \<open>createBooking\<close>: \<open>now\<close> is the clock reading of the time validation. The result comes
  with the tables after the call.
\<close>

definition createBooking :: "date \<Rightarrow> string \<Rightarrow> Database \<Rightarrow> CreateBookingRequest \<Rightarrow> BookingResult \<times> Database" where
  "createBooking now newId db request =
     (let storeId = create_storeId request; barberId = create_barberId request;
          serviceId = create_serviceId request; startTime = create_startTime request
      in case find (\<lambda>s. service_id s = serviceId \<and> service_storeId s = storeId
                        \<and> service_isActive s) (services db) of
           None \<Rightarrow> (failure (Some ServiceNotFound) None, db)
         | Some service \<Rightarrow>
             let endTime = addMinutesDate startTime (duration service);
                 timeValidation = validateBookingTime now startTime
             in if \<not> isValid timeValidation
                then (failure (error timeValidation) None, db)
                else
                  (case (if truthy barberId then barberId
                         else (case findAvailableBarberAt db storeId startTime endTime of
                                 [] \<Rightarrow> None
                               | a # _ \<Rightarrow> Some (fst a))) of
                     None \<Rightarrow> (failure (Some NoBarberAvailable) None, db)
                   | Some assignedBarberId \<Rightarrow>
                       let conflictCheck = checkBookingConflictsAt db storeId
                             (Some assignedBarberId) serviceId startTime endTime None
                       in if hasConflict conflictCheck
                          then (failure (conflictDetails conflictCheck)
                                  (suggestedAlternatives conflictCheck), db)
                          else insertBooking db newId storeId assignedBarberId serviceId
                                 (create_customerName request) startTime endTime))"

text \<open>
  The closing step of \<open>updateBooking\<close>: the row is written over the stored one and its
  summary returned.
\<close>

definition writeBooking :: "Database \<Rightarrow> string \<Rightarrow> Booking \<Rightarrow> BookingResult \<times> Database" where
  "writeBooking db bookingId row =
     (case summarise db row of
        None \<Rightarrow> (failure (Some UpdateFailed) None, db)
      | Some summary \<Rightarrow>
          (\<lparr>success = True, booking = Some summary, result_error = None, alternatives = None\<rparr>,
           db\<lparr>bookings := map (\<lambda>b. if booking_id b = bookingId then row else b)
                              (bookings db)\<rparr>))"

text \<open>
  \<open>updateBooking\<close>. The service and barber of the stored row are read through its
  references (\<open>include\<close>).
\<close>

definition updateBooking :: "date \<Rightarrow> Database \<Rightarrow> UpdateBookingRequest \<Rightarrow> BookingResult \<times> Database" where
  "updateBooking now db request =
     (let bookingId = update_bookingId request; barberId = update_barberId request;
          serviceId = update_serviceId request; startTime = update_startTime request
      in case find (\<lambda>b. booking_id b = bookingId) (bookings db) of
           None \<Rightarrow> (failure (Some BookingNotFound) None, db)
         | Some existingBooking \<Rightarrow>
             (case find (\<lambda>s. service_id s = booking_serviceId existingBooking) (services db) of
                None \<Rightarrow> (failure (Some UpdateFailed) None, db)
              | Some existingService \<Rightarrow>
                  let named = (case update_customerName request of
                                 None \<Rightarrow> existingBooking
                               | Some n \<Rightarrow> if n = [] then existingBooking
                                           else existingBooking\<lparr>booking_customerName := n\<rparr>);
                      staged = (case update_status request of
                                  None \<Rightarrow> named
                                | Some st \<Rightarrow> named\<lparr>booking_status := st\<rparr>)
                  in if truthy serviceId \<or> startTime \<noteq> None \<or> truthy barberId
                     then
                       (case (if truthy serviceId
                              then find (\<lambda>s. service_id s = the serviceId
                                              \<and> service_storeId s = booking_storeId existingBooking
                                              \<and> service_isActive s) (services db)
                              else Some existingService) of
                          None \<Rightarrow> (failure (Some ServiceNotFound) None, db)
                        | Some newService \<Rightarrow>
                            let timeValidation =
                                  (case startTime of
                                     None \<Rightarrow> \<lparr>isValid = True, error = None\<rparr>
                                   | Some t \<Rightarrow> validateBookingTime now (Instant t))
                            in if \<not> isValid timeValidation
                               then (failure (error timeValidation) None, db)
                               else
                                 let newStartTime =
                                       (case startTime of
                                          None \<Rightarrow> booking_startTime existingBooking
                                        | Some t \<Rightarrow> t);
                                     newBarberId =
                                       (if truthy barberId then the barberId
                                        else booking_barberId existingBooking);
                                     newEndTime = addMinutes newStartTime (duration newService);
                                     conflictCheck = checkBookingConflicts db
                                       \<lparr>check_storeId = booking_storeId existingBooking,
                                        check_barberId = Some newBarberId,
                                        check_serviceId = service_id newService,
                                        check_startTime = newStartTime,
                                        check_endTime = newEndTime,
                                        excludeBookingId = Some bookingId\<rparr>
                                 in if hasConflict conflictCheck
                                    then (failure (conflictDetails conflictCheck)
                                            (suggestedAlternatives conflictCheck), db)
                                    else writeBooking db bookingId (staged
                                           \<lparr>booking_serviceId :=
                                              (if truthy serviceId then the serviceId
                                               else booking_serviceId existingBooking),
                                            booking_startTime := newStartTime,
                                            booking_barberId := newBarberId,
                                            booking_endTime := newEndTime\<rparr>))
                     else writeBooking db bookingId staged))"

section \<open>The alternative search as the spec words it\<close>

text \<open>
  The spec's algorithm: scan the exact interval, then, while fewer than five alternatives
  are held, the offsets in the fixed order; at most five entries are returned.
\<close>

fun specLadder :: "Database \<Rightarrow> string \<Rightarrow> date \<Rightarrow> date \<Rightarrow> string option \<Rightarrow> Alternative list \<Rightarrow> int list \<Rightarrow> Alternative list" where
  "specLadder db storeId startTime endTime excludeId found [] = found"
| "specLadder db storeId startTime endTime excludeId found (offset # offsets) =
     (if length found < 5
      then specLadder db storeId startTime endTime excludeId
             (found @ findAvailableBarbers db storeId (addMinutes startTime offset)
                        (addMinutes endTime offset) excludeId) offsets
      else found)"

definition specAlternativeSearch :: "Database \<Rightarrow> string \<Rightarrow> date \<Rightarrow> date \<Rightarrow> string option \<Rightarrow> Alternative list" where
  "specAlternativeSearch db storeId startTime endTime excludeId =
     take 5 (specLadder db storeId startTime endTime excludeId
               (findAvailableBarbers db storeId startTime endTime excludeId)
               [- 30, 30, - 60, 60])"

section \<open>A sample store\<close>

text \<open>
  One store, open on Mondays from 09:00 to 13:00, with a 30-minute service and the
  barbers A and B. \<open>monday\<close> is the midnight of Monday 5 January 1970.
\<close>

definition monday :: date where
  "monday = 4 * msPerDay"

definition clock :: "int \<Rightarrow> int \<Rightarrow> date" where
  "clock h m = addMinutes monday (h * 60 + m)"

definition shopHours :: BusinessHours where
  "shopHours = \<lparr>bh_storeId = ''s1'', dayOfWeek = 1, openTime = ''09:00'',
                 closeTime = ''13:00'', isClosed = False\<rparr>"

definition haircut :: Service where
  "haircut = \<lparr>service_id = ''cut'', service_storeId = ''s1'', service_name = ''Cut'',
               duration = 30, service_isActive = True\<rparr>"

definition barberA :: Barber where
  "barberA = \<lparr>barber_id = ''A'', barber_storeId = ''s1'', barber_name = ''Ann'',
               barber_isActive = True\<rparr>"

definition barberB :: Barber where
  "barberB = \<lparr>barber_id = ''B'', barber_storeId = ''s1'', barber_name = ''Bo'',
               barber_isActive = True\<rparr>"

definition bookingOf :: "string \<Rightarrow> string \<Rightarrow> date \<Rightarrow> date \<Rightarrow> BookingStatus \<Rightarrow> Booking" where
  "bookingOf i barberId startTime endTime st =
     \<lparr>booking_id = i, booking_storeId = ''s1'', booking_barberId = barberId,
      booking_serviceId = ''cut'', booking_customerName = ''Kim'',
      booking_startTime = startTime, booking_endTime = endTime, booking_status = st\<rparr>"

definition shop :: "Barber list \<Rightarrow> Booking list \<Rightarrow> Database" where
  "shop staff booked = \<lparr>services = [haircut], businessHoursTable = [shopHours],
                         barbers = staff, bookings = booked\<rparr>"

definition alternativeOf :: "Barber \<Rightarrow> date \<Rightarrow> date \<Rightarrow> Alternative" where
  "alternativeOf b startTime endTime =
     \<lparr>alt_barberId = barber_id b, alt_barberName = barber_name b,
      alt_startTime = startTime, alt_endTime = endTime\<rparr>"

definition requestOf :: "string option \<Rightarrow> date \<Rightarrow> date \<Rightarrow> string option \<Rightarrow> BookingConflictCheck" where
  "requestOf barberId startTime endTime excludeId =
     \<lparr>check_storeId = ''s1'', check_barberId = barberId, check_serviceId = ''cut'',
      check_startTime = startTime, check_endTime = endTime, excludeBookingId = excludeId\<rparr>"

section \<open>Properties of the temporal utilities\<close>

lemma slotLoop_returns:
  assumes "0 < s"
  shows "\<exists>ts. slotLoop cls d s m acc = Some (acc @ map minutesToTime ts)
            \<and> sorted_wrt (<) ts
            \<and> set ts = {t. \<exists>k::nat. t = m + int k * s \<and> t + d \<le> cls}"
proof (induction "nat (cls - d - m + 1)" arbitrary: m acc rule: less_induct)
  case less
  show ?case
  proof (cases "m + d \<le> cls")
    case False
    have "slotLoop cls d s m acc = Some acc"
      using False by (subst slotLoop.simps) simp
    moreover have "{t. \<exists>k::nat. t = m + int k * s \<and> t + d \<le> cls} = {}"
    proof -
      have "\<And>k::nat. m + int k * s + d > cls"
      proof -
        fix k :: nat
        have "0 \<le> int k * s" using assms by simp
        then show "m + int k * s + d > cls" using False by linarith
      qed
      then show ?thesis by (auto simp: not_le)
    qed
    ultimately show ?thesis by (intro exI[of _ "[]"]) simp
  next
    case True
    have lt: "nat (cls - d - (m + s) + 1) < nat (cls - d - m + 1)"
      using True assms by linarith
    obtain ts where ts:
      "slotLoop cls d s (m + s) (acc @ [minutesToTime m])
         = Some ((acc @ [minutesToTime m]) @ map minutesToTime ts)"
      "sorted_wrt (<) ts"
      "set ts = {t. \<exists>k::nat. t = (m + s) + int k * s \<and> t + d \<le> cls}"
      using less[OF lt, of "acc @ [minutesToTime m]"] by blast
    have step: "slotLoop cls d s m acc = slotLoop cls d s (m + s) (acc @ [minutesToTime m])"
      using True by (subst slotLoop.simps) simp
    have gt: "\<forall>t\<in>set ts. m < t"
    proof
      fix t assume "t \<in> set ts"
      then obtain k :: nat where "t = (m + s) + int k * s" using ts(3) by auto
      moreover have "0 \<le> int k * s" using assms by simp
      ultimately show "m < t" using assms by linarith
    qed
    have set_eq: "set (m # ts) = {t. \<exists>k::nat. t = m + int k * s \<and> t + d \<le> cls}"
    proof (intro set_eqI iffI)
      fix t assume "t \<in> set (m # ts)"
      then consider "t = m" | "t \<in> set ts" by auto
      then show "t \<in> {t. \<exists>k::nat. t = m + int k * s \<and> t + d \<le> cls}"
      proof cases
        case 1
        then show ?thesis using True by (auto intro: exI[of _ 0])
      next
        case 2
        then obtain k :: nat where k: "t = (m + s) + int k * s" "t + d \<le> cls"
          using ts(3) by auto
        have "t = m + int (Suc k) * s" using k(1) by (simp add: algebra_simps)
        then show ?thesis using k(2) by blast
      qed
    next
      fix t assume "t \<in> {t. \<exists>k::nat. t = m + int k * s \<and> t + d \<le> cls}"
      then obtain k :: nat where k: "t = m + int k * s" "t + d \<le> cls" by auto
      show "t \<in> set (m # ts)"
      proof (cases k)
        case 0
        then show ?thesis using k by simp
      next
        case (Suc j)
        then have "t = (m + s) + int j * s" using k(1) by (simp add: algebra_simps)
        then have "t \<in> set ts" using ts(3) k(2) by blast
        then show ?thesis by simp
      qed
    qed
    show ?thesis
      by (intro exI[of _ "m # ts"]) (use step ts(1,2) gt set_eq in simp)
  qed
qed

lemma slotLoop_too_long: "cls < m + d \<Longrightarrow> slotLoop cls d s m acc = Some acc"
  by (subst slotLoop.simps) simp

lemma isTimeRangeOverlap_parsed:
  "timeToMinutes a = Some aStart \<Longrightarrow> timeToMinutes a' = Some aEnd \<Longrightarrow>
   timeToMinutes b = Some bStart \<Longrightarrow> timeToMinutes b' = Some bEnd \<Longrightarrow>
   isTimeRangeOverlap a a' b b' = intervalsOverlap aStart aEnd bStart bEnd"
  by (simp add: isTimeRangeOverlap_def intervalsOverlap_def)

text \<open>
  Claim C4. For two intervals that each start before they end, the three-clause
  disjunction of the conflict query holds exactly when the strict half-open overlap test
  \<open>aStart < bEnd && bStart < aEnd\<close> holds; two intervals that touch at an endpoint are
  in conflict under neither.
\<close>

theorem conflictClause_is_strict_overlap:
  assumes "aStart < aEnd" and "bStart < bEnd"
  shows "conflictClause bStart bEnd aStart aEnd = intervalsOverlap aStart aEnd bStart bEnd
         \<and> (bEnd = aStart \<or> bStart = aEnd \<longrightarrow>
              \<not> conflictClause bStart bEnd aStart aEnd
              \<and> \<not> intervalsOverlap aStart aEnd bStart bEnd)"
  using assms by (auto simp: conflictClause_def intervalsOverlap_def)

text \<open>
  Witness of C4: the slots 10:00 to 10:30 and 10:30 to 11:00 touch and do not conflict.
\<close>

theorem conflictClause_is_strict_overlap_witness:
  "clock 10 0 < clock 10 30 \<and> clock 10 30 < clock 11 0
   \<and> conflictClause (clock 10 30) (clock 11 0) (clock 10 0) (clock 10 30)
       = intervalsOverlap (clock 10 0) (clock 10 30) (clock 10 30) (clock 11 0)
   \<and> \<not> conflictClause (clock 10 30) (clock 11 0) (clock 10 0) (clock 10 30)
   \<and> \<not> intervalsOverlap (clock 10 0) (clock 10 30) (clock 10 30) (clock 11 0)"
proof -
  have a: "clock 10 0 < clock 10 30" and b: "clock 10 30 < clock 11 0"
    by (simp_all add: clock_def addMinutes_def msPerMinute_def)
  show ?thesis
    using conflictClause_is_strict_overlap[OF a b] a b by simp
qed

subsection \<open>Printing a time and reading it back\<close>

lemma digitChar_digit:
  assumes "k < 10"
  shows "isDigit (digitChar k) \<and> digitValue (digitChar k) = int k"
proof -
  from assms have "k = 0 \<or> k = 1 \<or> k = 2 \<or> k = 3 \<or> k = 4 \<or> k = 5 \<or> k = 6 \<or> k = 7
                   \<or> k = 8 \<or> k = 9"
    by arith
  then show ?thesis
    by (elim disjE) (simp_all add: digitChar_def isDigit_def digitValue_def)
qed

lemma isDigit_value: "isDigit c \<Longrightarrow> 0 \<le> digitValue c \<and> c \<noteq> CHR '':''"
  by (auto simp: isDigit_def digitValue_def)

lemma showNat_digits:
  "list_all isDigit (showNat n)
   \<and> foldl (\<lambda>a c. 10 * a + digitValue c) 0 (showNat n) = int n"
proof (induction n rule: showNat.induct)
  case (1 n)
  show ?case
  proof (cases "n < 10")
    case True
    then have "showNat n = [digitChar n]" by (simp add: showNat.simps)
    then show ?thesis using digitChar_digit[OF True] by simp
  next
    case False
    then have eq: "showNat n = showNat (n div 10) @ [digitChar (n mod 10)]"
      by (subst showNat.simps) simp
    have d: "isDigit (digitChar (n mod 10))"
      "digitValue (digitChar (n mod 10)) = int (n mod 10)"
      using digitChar_digit[of "n mod 10"] by simp_all
    have "10 * int (n div 10) + int (n mod 10) = int n"
      by (simp add: zmod_int zdiv_int)
    then show ?thesis
      using "1.IH"[OF False] d unfolding eq by simp
  qed
qed

lemma leading_zeros:
  "foldl (\<lambda>a c. 10 * a + digitValue c) 0 (replicate k CHR ''0'') = 0"
  by (induction k) (simp_all add: digitValue_def)

lemma Number_padded:
  "Number (padStart 2 CHR ''0'' (showNat n)) = Some (int n)"
proof -
  have "isDigit CHR ''0''" by (simp add: isDigit_def)
  then have "list_all isDigit (replicate (2 - length (showNat n)) CHR ''0'' @ showNat n)"
    using showNat_digits[of n] by (auto simp: list_all_iff)
  then show ?thesis
    using showNat_digits[of n] by (simp add: Number_def padStart_def leading_zeros)
qed

lemma padded_no_colon: "CHR '':'' \<notin> set (padStart 2 CHR ''0'' (showNat n))"
proof -
  have "\<forall>c\<in>set (showNat n). c \<noteq> CHR '':''"
    using showNat_digits[of n] isDigit_value by (auto simp: list_all_iff)
  then show ?thesis by (auto simp: padStart_def)
qed

lemma split_no_separator: "c \<notin> set s \<Longrightarrow> split c s = [s]"
  by (induction s) auto

lemma split_at_separator: "c \<notin> set a \<Longrightarrow> split c (a @ c # b) = a # split c b"
  by (induction a) auto

lemma timeToMinutes_minutesToTime:
  assumes "0 \<le> m"
  shows "timeToMinutes (minutesToTime m) = Some m"
proof -
  let ?h = "padStart 2 CHR ''0'' (showNat (nat (m div 60)))"
  let ?n = "padStart 2 CHR ''0'' (showNat (nat (m mod 60)))"
  have h: "0 \<le> m div 60" and n: "0 \<le> m mod 60" using assms by simp_all
  have neg: "\<not> m div 60 < 0" "\<not> m mod 60 < 0" "\<not> m < 0" using h n assms by linarith+
  have shape: "minutesToTime m = ?h @ CHR '':'' # ?n"
    by (simp add: minutesToTime_def Let_def toString_def jsRem_def neg)
  have "split CHR '':'' (minutesToTime m) = [?h, ?n]"
    unfolding shape
    by (simp add: split_at_separator[OF padded_no_colon] split_no_separator[OF padded_no_colon])
  moreover have "Number ?h = Some (m div 60)" "Number ?n = Some (m mod 60)"
    using h n by (simp_all add: Number_padded)
  ultimately show ?thesis
    by (simp add: timeToMinutes_def)
qed

lemma Number_nonneg: "Number s = Some v \<Longrightarrow> 0 \<le> v"
proof -
  have "list_all isDigit s \<Longrightarrow> 0 \<le> a \<Longrightarrow> 0 \<le> foldl (\<lambda>a c. 10 * a + digitValue c) a s"
    for a :: int
  proof (induction s arbitrary: a)
    case Nil
    then show ?case by simp
  next
    case (Cons c s)
    then have "0 \<le> 10 * a + digitValue c" using isDigit_value[of c] by simp
    then show ?case using Cons by simp
  qed
  then show "Number s = Some v \<Longrightarrow> 0 \<le> v"
    by (auto simp: Number_def split: if_splits)
qed

lemma timeToMinutes_nonneg: "timeToMinutes s = Some v \<Longrightarrow> 0 \<le> v"
  by (auto simp: timeToMinutes_def split: list.splits option.splits dest!: Number_nonneg)

text \<open>Up to 99:59 the printed time is two digits, a colon and two digits.\<close>

lemma minutesToTime_digits:
  assumes "0 \<le> m" and "m < 6000"
  shows "minutesToTime m
         = [digitChar (nat (m div 600)), digitChar (nat (m div 60 mod 10)), CHR '':'',
            digitChar (nat (m mod 60 div 10)), digitChar (nat (m mod 10))]"
proof -
  have two: "padStart 2 CHR ''0'' (showNat k) = [digitChar (k div 10), digitChar (k mod 10)]"
    if "k < 100" for k
  proof (cases "k < 10")
    case True
    then have "showNat k = [digitChar k]" by (simp add: showNat.simps)
    moreover have "digitChar 0 = CHR ''0''" by (simp add: digitChar_def)
    ultimately show ?thesis using True by (simp add: padStart_def)
  next
    case False
    then have "showNat k = showNat (k div 10) @ [digitChar (k mod 10)]"
      by (subst showNat.simps) simp
    moreover have "showNat (k div 10) = [digitChar (k div 10)]"
      using that by (simp add: showNat.simps)
    ultimately show ?thesis by (simp add: padStart_def)
  qed
  have h: "0 \<le> m div 60" "nat (m div 60) < 100" and n: "0 \<le> m mod 60" "nat (m mod 60) < 100"
    using assms by auto
  have neg: "\<not> m div 60 < 0" "\<not> m mod 60 < 0" "\<not> m < 0" using h n assms by linarith+
  have "minutesToTime m = padStart 2 CHR ''0'' (showNat (nat (m div 60))) @ CHR '':''
                          # padStart 2 CHR ''0'' (showNat (nat (m mod 60)))"
    by (simp add: minutesToTime_def Let_def toString_def jsRem_def neg)
  also have "\<dots> = [digitChar (nat (m div 60) div 10), digitChar (nat (m div 60) mod 10),
                     CHR '':'', digitChar (nat (m mod 60) div 10),
                     digitChar (nat (m mod 60) mod 10)]"
    by (simp add: two[OF h(2)] two[OF n(2)])
  also have "nat (m div 60) div 10 = nat (m div 600)"
    using assms by (simp add: nat_div_distrib div_mult2_eq)
  also have "nat (m div 60) mod 10 = nat (m div 60 mod 10)"
    using assms by (simp add: nat_mod_distrib)
  also have "nat (m mod 60) div 10 = nat (m mod 60 div 10)"
    using assms by (simp add: nat_div_distrib)
  also have "nat (m mod 60) mod 10 = nat (m mod 10)"
  proof -
    have "m mod 60 mod 10 = m mod 10" by (simp add: mod_mod_cancel)
    moreover have "nat (m mod 60) mod 10 = nat (m mod 60 mod 10)"
      by (simp add: nat_mod_distrib)
    ultimately show ?thesis by simp
  qed
  finally show ?thesis .
qed

lemmas time_eval = getAvailableTimeSlots_def slotLoop.simps timeToMinutes_def Number_def
  isDigit_def digitValue_def minutesToTime_def jsRem_def padStart_def toString_def
  digitChar_def showNat.simps

text \<open>The repository's own tests of the slot enumerator.\<close>

lemma getAvailableTimeSlots_tests:
  "getAvailableTimeSlots
     \<lparr>bh_storeId = ''store-1'', dayOfWeek = 1, openTime = ''09:00'', closeTime = ''12:00'',
      isClosed = False\<rparr> 60 (Some 30)
     = Some [''09:00'', ''09:30'', ''10:00'', ''10:30'', ''11:00'']"
  "getAvailableTimeSlots
     \<lparr>bh_storeId = ''store-1'', dayOfWeek = 1, openTime = ''09:00'', closeTime = ''12:00'',
      isClosed = True\<rparr> 60 (Some 30) = Some []"
  "getAvailableTimeSlots
     \<lparr>bh_storeId = ''store-1'', dayOfWeek = 1, openTime = ''09:00'', closeTime = ''12:00'',
      isClosed = False\<rparr> 240 (Some 30) = Some []"
  by (simp_all add: time_eval)

text \<open>
  Claim C7. On a closed day the slot enumerator returns the empty list. On an open day
  whose times read as \<open>opn\<close> and \<open>cls\<close> minutes, with a positive step \<open>s\<close>, it returns, and
  returns exactly the ascending start times \<open>opn + k * s\<close>, \<open>k \<ge> 0\<close>, with
  \<open>opn + k * s + d \<le> cls\<close>. Each is printed as its \<open>HH:mm\<close> string: the string reads back
  as that very time, and up to 99:59 it is the two digits of the hour, a colon and the
  two digits of the minute. When \<open>d > cls - opn\<close> the list is empty. An omitted step
  is 30. A 480-minute service on 09:00 to 17:00 with step 30 gives the one slot 09:00.
\<close>

theorem slot_enumerator_exact:
  "(isClosed bh \<longrightarrow> getAvailableTimeSlots bh d si = Some [])
   \<and> (\<not> isClosed bh \<and> timeToMinutes (openTime bh) = Some opn
        \<and> timeToMinutes (closeTime bh) = Some cls \<longrightarrow>
      (0 < s \<longrightarrow>
         (\<exists>ts. getAvailableTimeSlots bh d (Some s) = Some (map minutesToTime ts)
               \<and> sorted_wrt (<) ts
               \<and> set ts = {t. \<exists>k::nat. t = opn + int k * s \<and> t + d \<le> cls}
               \<and> map timeToMinutes (map minutesToTime ts) = map Some ts
               \<and> (\<forall>t\<in>set ts. t < 6000 \<longrightarrow>
                     minutesToTime t
                       = [digitChar (nat (t div 600)), digitChar (nat (t div 60 mod 10)),
                          CHR '':'', digitChar (nat (t mod 60 div 10)),
                          digitChar (nat (t mod 10))])))
      \<and> (cls - opn < d \<longrightarrow> getAvailableTimeSlots bh d si = Some []))
   \<and> getAvailableTimeSlots bh d None = getAvailableTimeSlots bh d (Some 30)
   \<and> getAvailableTimeSlots
        \<lparr>bh_storeId = ''s1'', dayOfWeek = 1, openTime = ''09:00'', closeTime = ''17:00'',
         isClosed = False\<rparr> 480 (Some 30) = Some [''09:00'']"
proof (intro conjI impI)
  assume "isClosed bh"
  then show "getAvailableTimeSlots bh d si = Some []"
    by (simp add: getAvailableTimeSlots_def)
next
  assume h: "\<not> isClosed bh \<and> timeToMinutes (openTime bh) = Some opn
             \<and> timeToMinutes (closeTime bh) = Some cls" and s: "0 < s"
  have opn: "0 \<le> opn" using h timeToMinutes_nonneg by blast
  obtain ts where ts: "slotLoop cls d s opn [] = Some ([] @ map minutesToTime ts)"
    "sorted_wrt (<) ts" "set ts = {t. \<exists>k::nat. t = opn + int k * s \<and> t + d \<le> cls}"
    using slotLoop_returns[OF s, of cls d opn "[]"] by blast
  have nonneg: "0 \<le> t" if "t \<in> set ts" for t
  proof -
    from that ts(3) obtain k :: nat where "t = opn + int k * s" by auto
    moreover have "0 \<le> int k * s" using s by simp
    ultimately show ?thesis using opn by linarith
  qed
  have reads: "map timeToMinutes (map minutesToTime ts) = map Some ts"
    using nonneg by (simp add: timeToMinutes_minutesToTime)
  have shape: "\<forall>t\<in>set ts. t < 6000 \<longrightarrow>
                 minutesToTime t
                   = [digitChar (nat (t div 600)), digitChar (nat (t div 60 mod 10)),
                      CHR '':'', digitChar (nat (t mod 60 div 10)),
                      digitChar (nat (t mod 10))]"
    using nonneg minutesToTime_digits by blast
  have "getAvailableTimeSlots bh d (Some s) = Some (map minutesToTime ts)"
    using h ts(1) by (simp add: getAvailableTimeSlots_def)
  then show "\<exists>ts. getAvailableTimeSlots bh d (Some s) = Some (map minutesToTime ts)
               \<and> sorted_wrt (<) ts
               \<and> set ts = {t. \<exists>k::nat. t = opn + int k * s \<and> t + d \<le> cls}
               \<and> map timeToMinutes (map minutesToTime ts) = map Some ts
               \<and> (\<forall>t\<in>set ts. t < 6000 \<longrightarrow>
                     minutesToTime t
                       = [digitChar (nat (t div 600)), digitChar (nat (t div 60 mod 10)),
                          CHR '':'', digitChar (nat (t mod 60 div 10)),
                          digitChar (nat (t mod 10))])"
    using ts(2,3) reads shape by blast
next
  assume h: "\<not> isClosed bh \<and> timeToMinutes (openTime bh) = Some opn
             \<and> timeToMinutes (closeTime bh) = Some cls" and d: "cls - opn < d"
  from d have "cls < opn + d" by simp
  then show "getAvailableTimeSlots bh d si = Some []"
    using h by (simp add: getAvailableTimeSlots_def slotLoop_too_long)
next
  show "getAvailableTimeSlots bh d None = getAvailableTimeSlots bh d (Some 30)"
    by (simp add: getAvailableTimeSlots_def split: option.splits)
next
  show "getAvailableTimeSlots
        \<lparr>bh_storeId = ''s1'', dayOfWeek = 1, openTime = ''09:00'', closeTime = ''17:00'',
         isClosed = False\<rparr> 480 (Some 30) = Some [''09:00'']"
    by (simp add: time_eval)
qed

text \<open>
  Witness of C7 on the sample store's hours, 09:00 to 13:00: closed, an hour's service
  every 30 minutes, which gives the seven slots from 09:00 to 12:00, and a five-hour
  service.
\<close>

theorem slot_enumerator_exact_witness:
  "getAvailableTimeSlots (shopHours\<lparr>isClosed := True\<rparr>) 60 None = Some []
   \<and> (\<exists>ts. getAvailableTimeSlots shopHours 60 (Some 30) = Some (map minutesToTime ts)
           \<and> sorted_wrt (<) ts
           \<and> set ts = {t. \<exists>k::nat. t = 540 + int k * 30 \<and> t + 60 \<le> 780}
           \<and> map timeToMinutes (map minutesToTime ts) = map Some ts
           \<and> ts = [540, 570, 600, 630, 660, 690, 720])
   \<and> getAvailableTimeSlots shopHours 60 (Some 30)
       = Some [''09:00'', ''09:30'', ''10:00'', ''10:30'', ''11:00'', ''11:30'', ''12:00'']
   \<and> minutesToTime 570 = ''09:30''
   \<and> getAvailableTimeSlots shopHours 300 None = Some []"
proof -
  have o: "timeToMinutes (openTime shopHours) = Some 540"
    by (simp add: shopHours_def time_eval)
  have c: "timeToMinutes (closeTime shopHours) = Some 780"
    by (simp add: shopHours_def time_eval)
  have n: "\<not> isClosed shopHours" by (simp add: shopHours_def)
  have pos: "(0::int) < 30" by simp
  have 1: "getAvailableTimeSlots (shopHours\<lparr>isClosed := True\<rparr>) 60 None = Some []"
    using slot_enumerator_exact[of "shopHours\<lparr>isClosed := True\<rparr>" 60 None] by simp
  have run: "getAvailableTimeSlots shopHours 60 (Some 30)
       = Some [''09:00'', ''09:30'', ''10:00'', ''10:30'', ''11:00'', ''11:30'', ''12:00'']"
    by (simp add: shopHours_def time_eval)
  have rd: "map timeToMinutes
              [''09:00'', ''09:30'', ''10:00'', ''10:30'', ''11:00'', ''11:30'', ''12:00'']
            = map Some [540, 570, 600, 630, 660, 690, 720]"
    by (simp add: time_eval)
  obtain ts where ts: "getAvailableTimeSlots shopHours 60 (Some 30) = Some (map minutesToTime ts)"
    "sorted_wrt (<) ts" "set ts = {t. \<exists>k::nat. t = 540 + int k * 30 \<and> t + 60 \<le> 780}"
    "map timeToMinutes (map minutesToTime ts) = map Some ts"
    "\<forall>t\<in>set ts. t < 6000 \<longrightarrow>
       minutesToTime t
         = [digitChar (nat (t div 600)), digitChar (nat (t div 60 mod 10)),
            CHR '':'', digitChar (nat (t mod 60 div 10)), digitChar (nat (t mod 10))]"
    using slot_enumerator_exact[of shopHours 60 None 540 780 30] o c n pos by blast
  have "map minutesToTime ts
        = [''09:00'', ''09:30'', ''10:00'', ''10:30'', ''11:00'', ''11:30'', ''12:00'']"
    using ts(1) run by simp
  then have "map Some ts = map Some [540, 570, 600, 630, 660, 690, 720]"
    using ts(4) rd by simp
  then have "map the (map Some ts) = map the (map Some [540, 570, 600, 630, 660, 690, 720])"
    by (rule arg_cong)
  then have eq: "ts = [540, 570, 600, 630, 660, 690, 720]"
    by (simp add: comp_def)
  have 2: "\<exists>ts. getAvailableTimeSlots shopHours 60 (Some 30) = Some (map minutesToTime ts)
           \<and> sorted_wrt (<) ts
           \<and> set ts = {t. \<exists>k::nat. t = 540 + int k * 30 \<and> t + 60 \<le> 780}
           \<and> map timeToMinutes (map minutesToTime ts) = map Some ts
           \<and> ts = [540, 570, 600, 630, 660, 690, 720]"
    using ts(1-4) eq by blast
  have "(570::int) \<in> set ts" using eq by simp
  then have "minutesToTime 570
         = [digitChar (nat (570 div 600)), digitChar (nat (570 div 60 mod 10)),
            CHR '':'', digitChar (nat (570 mod 60 div 10)), digitChar (nat (570 mod 10))]"
    using ts(5) by force
  then have 570: "minutesToTime 570 = ''09:30''"
    by (simp add: digitChar_def)
  have 3: "getAvailableTimeSlots shopHours 300 None = Some []"
    using slot_enumerator_exact[of shopHours 300 None 540 780 30] o c n by simp
  show ?thesis using 1 2 run 570 3 by blast
qed

text \<open>
  Claim C9, as amended. \<open>validateServiceTime\<close> accepts a duration exactly when it is an
  integer from 1 to 480 that is a multiple of 15.
\<close>

theorem validateServiceTime_accepts_iff:
  "isValid (validateServiceTime d)
     = (\<exists>n::int. d = of_int n \<and> 1 \<le> n \<and> n \<le> 480 \<and> n mod 15 = 0)"
proof (cases "of_int \<lfloor>d\<rfloor> = d")
  case False
  then have "\<And>n::int. d \<noteq> of_int n" by auto
  then show ?thesis using False by (simp add: validateServiceTime_def)
next
  case True
  then obtain m :: int where m: "d = of_int m" by metis
  have fl: "\<lfloor>d\<rfloor> = m" using m by simp
  have "isValid (validateServiceTime d) = (1 \<le> m \<and> m \<le> 480 \<and> m mod 15 = 0)"
    using m fl by (auto simp: validateServiceTime_def jsRem_def)
  also have "\<dots> = (\<exists>n::int. d = of_int n \<and> 1 \<le> n \<and> n \<le> 480 \<and> n mod 15 = 0)"
    using m by auto
  finally show ?thesis .
qed

text \<open>
  Counterexample to C9 as stated: the integer duration 1 lies in [1, 480] and is rejected.
\<close>

theorem validateServiceTime_rejects_one:
  "(1::int) \<le> 1 \<and> (1::int) \<le> 480 \<and> \<not> isValid (validateServiceTime (of_int 1))"
  by (simp add: validateServiceTime_def jsRem_def)

section \<open>Properties of the conflict detection\<close>

lemma availableAmong_eq:
  "availableAmong db st s e x bs =
     map (\<lambda>b. \<lparr>alt_barberId = barber_id b, alt_barberName = barber_name b,
                alt_startTime = s, alt_endTime = e\<rparr>)
       (filter (\<lambda>b. isAvailable (checkBarberAvailability db st (barber_id b) s e x)) bs)"
  by (induction bs) auto

lemma findAvailableBarbers_mem:
  assumes "a \<in> set (findAvailableBarbers db st s e x)"
  shows "alt_startTime a = s \<and> alt_endTime a = e
         \<and> isAvailable (checkBarberAvailability db st (alt_barberId a) s e x)
         \<and> (\<exists>b\<in>set (barbers db). barber_id b = alt_barberId a \<and> barber_storeId b = st
                \<and> barber_isActive b \<and> barber_name b = alt_barberName a)"
  using assms by (auto simp: findAvailableBarbers_def availableAmong_eq)

lemma findAvailableBarbers_empty_iff:
  "(findAvailableBarbers db st s e x = [])
     = (\<forall>b\<in>set (barbers db). barber_storeId b = st \<and> barber_isActive b \<longrightarrow>
          \<not> isAvailable (checkBarberAvailability db st (barber_id b) s e x))"
  by (auto simp: findAvailableBarbers_def availableAmong_eq filter_empty_conv)

lemma take5_scanSlots:
  "take 5 (scanSlots db st x acc slots)
     = take 5 (acc @ concat (map (\<lambda>(s, e). findAvailableBarbers db st s e x) slots))"
proof (induction slots arbitrary: acc)
  case Nil
  then show ?case by simp
next
  case (Cons slot slots)
  obtain s e where slot: "slot = (s, e)" by (cases slot)
  show ?case
  proof (cases "5 \<le> length (acc @ findAvailableBarbers db st s e x)")
    case True
    then show ?thesis using slot by (simp add: Let_def)
  next
    case False
    then show ?thesis
      using slot Cons.IH[of "acc @ findAvailableBarbers db st s e x"] by (simp add: Let_def)
  qed
qed

lemma findAlternativeBarbers_cases:
  "findAlternativeBarbers db st s e x =
     (if findAvailableBarbers db st s e x \<noteq> []
      then take 5 (findAvailableBarbers db st s e x)
      else take 5 (concat (map (\<lambda>off. findAvailableBarbers db st (addMinutes s off)
                                      (addMinutes e off) x) [- 30, 30, - 60, 60])))"
  by (simp add: findAlternativeBarbers_def Let_def take5_scanSlots del: scanSlots.simps)

lemma findAlternativeBarbers_mem:
  assumes "a \<in> set (findAlternativeBarbers db st s e x)"
  shows "\<exists>off\<in>{0, - 30, 30, - 60, 60}.
           a \<in> set (findAvailableBarbers db st (addMinutes s off) (addMinutes e off) x)"
proof (cases "findAvailableBarbers db st s e x \<noteq> []")
  case True
  then have "a \<in> set (findAvailableBarbers db st s e x)"
    using assms by (auto simp: findAlternativeBarbers_cases dest: in_set_takeD)
  then show ?thesis by (simp add: addMinutes_def)
next
  case False
  then have "a \<in> set (concat (map (\<lambda>off. findAvailableBarbers db st (addMinutes s off)
                                      (addMinutes e off) x) [- 30, 30, - 60, 60]))"
    using assms by (auto simp: findAlternativeBarbers_cases dest: in_set_takeD)
  then show ?thesis by auto
qed

lemma checkBarberAvailability_available_iff:
  "isAvailable (checkBarberAvailability db st bid s e x)
     = ((\<exists>b. find (\<lambda>b. barber_id b = bid \<and> barber_storeId b = st) (barbers db) = Some b
             \<and> barber_isActive b)
        \<and> conflictingBookings db st bid s e x = [])"
  by (auto simp: checkBarberAvailability_def split: option.splits list.splits)

lemma strict_overlap_is_conflict:
  "intervalsOverlap s e bs be \<Longrightarrow> conflictClause bs be s e"
  by (auto simp: conflictClause_def intervalsOverlap_def)

text \<open>What does hold of every alternative: an active barber of the store with no conflicting booking.\<close>

lemma alternatives_are_free_barbers:
  assumes "a \<in> set (findAlternativeBarbers db st s e x)"
  shows "(\<exists>b\<in>set (barbers db). barber_id b = alt_barberId a \<and> barber_storeId b = st
             \<and> barber_isActive b)
         \<and> (\<forall>k\<in>set (bookings db).
               booking_storeId k = st \<and> booking_barberId k = alt_barberId a
               \<and> booking_status k \<noteq> Cancelled
               \<and> (truthy x \<longrightarrow> booking_id k \<noteq> the x) \<longrightarrow>
               \<not> intervalsOverlap (alt_startTime a) (alt_endTime a)
                    (booking_startTime k) (booking_endTime k))"
proof -
  obtain off where a: "a \<in> set (findAvailableBarbers db st (addMinutes s off) (addMinutes e off) x)"
    using findAlternativeBarbers_mem[OF assms] by blast
  note m = findAvailableBarbers_mem[OF a]
  have free: "conflictingBookings db st (alt_barberId a) (alt_startTime a) (alt_endTime a) x = []"
    using m by (simp add: checkBarberAvailability_available_iff)
  have none: "\<forall>k\<in>set (bookings db).
                 \<not> whereClause st (alt_barberId a) (alt_startTime a) (alt_endTime a) x k"
    using free by (simp add: conflictingBookings_def filter_empty_conv)
  have "\<not> intervalsOverlap (alt_startTime a) (alt_endTime a)
             (booking_startTime k) (booking_endTime k)"
    if k: "k \<in> set (bookings db)" "booking_storeId k = st"
      "booking_barberId k = alt_barberId a" "booking_status k \<noteq> Cancelled"
      "truthy x \<longrightarrow> booking_id k \<noteq> the x" for k
  proof
    assume "intervalsOverlap (alt_startTime a) (alt_endTime a)
              (booking_startTime k) (booking_endTime k)"
    then have "conflictClause (booking_startTime k) (booking_endTime k)
                 (alt_startTime a) (alt_endTime a)"
      by (rule strict_overlap_is_conflict)
    then have "whereClause st (alt_barberId a) (alt_startTime a) (alt_endTime a) x k"
      using k by (simp add: whereClause_def)
    then show False using none k(1) by blast
  qed
  then show ?thesis using m by blast
qed

text \<open>
  Claim C1, at a failing input. The store opens at 09:00; barber A, the only one, is booked
  from 09:00 to 09:30 and is asked for at that time. The alternatives returned are A at
  08:30, 09:30, 08:00 and 10:00, and a request for the first of them is itself refused
  as outside business hours: the shifted slots are never checked against the hours.
\<close>

theorem alternative_outside_business_hours:
  "suggestedAlternatives
     (checkBookingConflicts
        (shop [barberA] [bookingOf ''b1'' ''A'' (clock 9 0) (clock 9 30) Confirmed])
        (requestOf (Some ''A'') (clock 9 0) (clock 9 30) None))
     = Some [alternativeOf barberA (clock 8 30) (clock 9 0),
             alternativeOf barberA (clock 9 30) (clock 10 0),
             alternativeOf barberA (clock 8 0) (clock 8 30),
             alternativeOf barberA (clock 10 0) (clock 10 30)]
   \<and> checkBookingConflicts
       (shop [barberA] [bookingOf ''b1'' ''A'' (clock 9 0) (clock 9 30) Confirmed])
       (requestOf (Some ''A'') (clock 8 30) (clock 9 0) None)
     = \<lparr>hasConflict = True, conflictType = Some outside_business_hours,
        conflictDetails = Some (BusinessHoursAre ''09:00'' ''13:00''),
        suggestedAlternatives = None\<rparr>"
  by code_simp

text \<open>
  Counterexample to C2 as stated. Barber A is booked at 10:00 and B is free: the search
  returns B at 10:00 alone, although fewer than five alternatives are held; the spec's
  algorithm goes on to the shifted slots and returns five.
\<close>

theorem shifted_slots_skipped_when_same_time_found:
  "findAlternativeBarbers
     (shop [barberA, barberB] [bookingOf ''b1'' ''A'' (clock 10 0) (clock 10 30) Confirmed])
     ''s1'' (clock 10 0) (clock 10 30) None
     = [alternativeOf barberB (clock 10 0) (clock 10 30)]
   \<and> specAlternativeSearch
       (shop [barberA, barberB] [bookingOf ''b1'' ''A'' (clock 10 0) (clock 10 30) Confirmed])
       ''s1'' (clock 10 0) (clock 10 30) None
     = [alternativeOf barberB (clock 10 0) (clock 10 30),
        alternativeOf barberA (clock 9 30) (clock 10 0),
        alternativeOf barberB (clock 9 30) (clock 10 0),
        alternativeOf barberA (clock 10 30) (clock 11 0),
        alternativeOf barberB (clock 10 30) (clock 11 0)]"
  by code_simp

text \<open>
  Claim C2, as amended. When some active barber is available at the exact interval, the
  search returns the first five of those and tries no shifted slot. Only when none is
  does it scan the offsets -30, +30, -60, +60 in that order, each with the full scan of
  the active barbers, and returns the first five found; leaving the loop early once
  five are held does not change them. At most five entries are returned.
\<close>

theorem alternative_search_ladder:
  "(findAvailableBarbers db st s e x \<noteq> [] \<longrightarrow>
      findAlternativeBarbers db st s e x = take 5 (findAvailableBarbers db st s e x))
   \<and> (findAvailableBarbers db st s e x = [] \<longrightarrow>
        findAlternativeBarbers db st s e x =
          take 5 (findAvailableBarbers db st (addMinutes s (- 30)) (addMinutes e (- 30)) x
                  @ findAvailableBarbers db st (addMinutes s 30) (addMinutes e 30) x
                  @ findAvailableBarbers db st (addMinutes s (- 60)) (addMinutes e (- 60)) x
                  @ findAvailableBarbers db st (addMinutes s 60) (addMinutes e 60) x))
   \<and> length (findAlternativeBarbers db st s e x) \<le> 5"
proof (intro conjI)
  show "length (findAlternativeBarbers db st s e x) \<le> 5"
    by (simp add: findAlternativeBarbers_def Let_def del: scanSlots.simps)
next
  show "findAvailableBarbers db st s e x \<noteq> [] \<longrightarrow>
      findAlternativeBarbers db st s e x = take 5 (findAvailableBarbers db st s e x)"
    by (simp add: findAlternativeBarbers_cases del: take_append)
next
  show "findAvailableBarbers db st s e x = [] \<longrightarrow>
        findAlternativeBarbers db st s e x =
          take 5 (findAvailableBarbers db st (addMinutes s (- 30)) (addMinutes e (- 30)) x
                  @ findAvailableBarbers db st (addMinutes s 30) (addMinutes e 30) x
                  @ findAvailableBarbers db st (addMinutes s (- 60)) (addMinutes e (- 60)) x
                  @ findAvailableBarbers db st (addMinutes s 60) (addMinutes e 60) x)"
    by (simp add: findAlternativeBarbers_cases del: take_append)
qed

text \<open>
  Witness of C2: with B free at 10:00 the search returns the same-time scan; with A alone
  and booked, the four shifted scans.
\<close>

theorem alternative_search_ladder_witness:
  "findAvailableBarbers
     (shop [barberA, barberB] [bookingOf ''b1'' ''A'' (clock 10 0) (clock 10 30) Confirmed])
     ''s1'' (clock 10 0) (clock 10 30) None \<noteq> []
   \<and> findAlternativeBarbers
       (shop [barberA, barberB] [bookingOf ''b1'' ''A'' (clock 10 0) (clock 10 30) Confirmed])
       ''s1'' (clock 10 0) (clock 10 30) None
     = take 5 (findAvailableBarbers
         (shop [barberA, barberB] [bookingOf ''b1'' ''A'' (clock 10 0) (clock 10 30) Confirmed])
         ''s1'' (clock 10 0) (clock 10 30) None)
   \<and> findAvailableBarbers
       (shop [barberA] [bookingOf ''b1'' ''A'' (clock 10 0) (clock 10 30) Confirmed])
       ''s1'' (clock 10 0) (clock 10 30) None = []
   \<and> findAlternativeBarbers
       (shop [barberA] [bookingOf ''b1'' ''A'' (clock 10 0) (clock 10 30) Confirmed])
       ''s1'' (clock 10 0) (clock 10 30) None
     = [alternativeOf barberA (clock 9 30) (clock 10 0),
        alternativeOf barberA (clock 10 30) (clock 11 0),
        alternativeOf barberA (clock 9 0) (clock 9 30),
        alternativeOf barberA (clock 11 0) (clock 11 30)]"
proof -
  let ?two = "shop [barberA, barberB] [bookingOf ''b1'' ''A'' (clock 10 0) (clock 10 30) Confirmed]"
  let ?one = "shop [barberA] [bookingOf ''b1'' ''A'' (clock 10 0) (clock 10 30) Confirmed]"
  have some: "findAvailableBarbers ?two ''s1'' (clock 10 0) (clock 10 30) None \<noteq> []"
    by code_simp
  have none: "findAvailableBarbers ?one ''s1'' (clock 10 0) (clock 10 30) None = []"
    by code_simp
  have shifted:
    "take 5 (findAvailableBarbers ?one ''s1'' (addMinutes (clock 10 0) (- 30))
                (addMinutes (clock 10 30) (- 30)) None
             @ findAvailableBarbers ?one ''s1'' (addMinutes (clock 10 0) 30)
                (addMinutes (clock 10 30) 30) None
             @ findAvailableBarbers ?one ''s1'' (addMinutes (clock 10 0) (- 60))
                (addMinutes (clock 10 30) (- 60)) None
             @ findAvailableBarbers ?one ''s1'' (addMinutes (clock 10 0) 60)
                (addMinutes (clock 10 30) 60) None)
     = [alternativeOf barberA (clock 9 30) (clock 10 0),
        alternativeOf barberA (clock 10 30) (clock 11 0),
        alternativeOf barberA (clock 9 0) (clock 9 30),
        alternativeOf barberA (clock 11 0) (clock 11 30)]"
    by code_simp
  have 1: "findAlternativeBarbers ?two ''s1'' (clock 10 0) (clock 10 30) None
           = take 5 (findAvailableBarbers ?two ''s1'' (clock 10 0) (clock 10 30) None)"
    using alternative_search_ladder[of ?two "''s1''" "clock 10 0" "clock 10 30" None] some
    by blast
  have 2: "findAlternativeBarbers ?one ''s1'' (clock 10 0) (clock 10 30) None
     = [alternativeOf barberA (clock 9 30) (clock 10 0),
        alternativeOf barberA (clock 10 30) (clock 11 0),
        alternativeOf barberA (clock 9 0) (clock 9 30),
        alternativeOf barberA (clock 11 0) (clock 11 30)]"
    using alternative_search_ladder[of ?one "''s1''" "clock 10 0" "clock 10 30" None] none
      shifted by presburger
  show ?thesis using some none 1 2 by blast
qed

text \<open>
  Claim C3, as amended. For a request that passes the service check and the
  business-hours check, names no barber, and finds no active barber of the store
  available, \<open>checkBookingConflicts\<close> reports a conflict of type \<open>time_overlap\<close> with the
  detail that all barbers are booked at that time.
\<close>

theorem no_staff_available_is_time_overlap:
  assumes "isAvailable (checkServiceAvailability db (check_storeId c) (check_serviceId c))"
    and "isWithinHours (checkBusinessHours db (check_storeId c) (check_startTime c)
           (check_endTime c))"
    and "\<not> truthy (check_barberId c)"
    and "\<forall>b\<in>set (barbers db). barber_storeId b = check_storeId c \<and> barber_isActive b \<longrightarrow>
           \<not> isAvailable (checkBarberAvailability db (check_storeId c) (barber_id b)
                 (check_startTime c) (check_endTime c) (excludeBookingId c))"
  shows "hasConflict (checkBookingConflicts db c)
         \<and> conflictType (checkBookingConflicts db c) = Some time_overlap
         \<and> conflictDetails (checkBookingConflicts db c) = Some AllBarbersBooked"
proof -
  have "findAvailableBarbers db (check_storeId c) (check_startTime c) (check_endTime c)
          (excludeBookingId c) = []"
    using assms(4) by (simp only: findAvailableBarbers_empty_iff)
  then show ?thesis
    using assms(1-3) by (simp add: checkBookingConflicts_def Let_def)
qed

text \<open>
  Witness of C3: the only barber is booked from 09:00 to 09:30 and no barber is named.
\<close>

theorem no_staff_available_is_time_overlap_witness:
  "hasConflict (checkBookingConflicts
      (shop [barberA] [bookingOf ''b1'' ''A'' (clock 9 0) (clock 9 30) Confirmed])
      (requestOf None (clock 9 0) (clock 9 30) None))
   \<and> conflictType (checkBookingConflicts
      (shop [barberA] [bookingOf ''b1'' ''A'' (clock 9 0) (clock 9 30) Confirmed])
      (requestOf None (clock 9 0) (clock 9 30) None)) = Some time_overlap
   \<and> conflictDetails (checkBookingConflicts
      (shop [barberA] [bookingOf ''b1'' ''A'' (clock 9 0) (clock 9 30) Confirmed])
      (requestOf None (clock 9 0) (clock 9 30) None)) = Some AllBarbersBooked"
proof -
  let ?db = "shop [barberA] [bookingOf ''b1'' ''A'' (clock 9 0) (clock 9 30) Confirmed]"
  let ?c = "requestOf None (clock 9 0) (clock 9 30) None"
  have 1: "isAvailable (checkServiceAvailability ?db (check_storeId ?c) (check_serviceId ?c))"
    by code_simp
  have 2: "isWithinHours (checkBusinessHours ?db (check_storeId ?c) (check_startTime ?c)
             (check_endTime ?c))"
    by code_simp
  have 3: "\<not> truthy (check_barberId ?c)"
    by code_simp
  have 4: "\<forall>b\<in>set (barbers ?db). barber_storeId b = check_storeId ?c \<and> barber_isActive b \<longrightarrow>
             \<not> isAvailable (checkBarberAvailability ?db (check_storeId ?c) (barber_id b)
                   (check_startTime ?c) (check_endTime ?c) (excludeBookingId ?c))"
    by code_simp
  show ?thesis
    by (rule no_staff_available_is_time_overlap[OF 1 2 3 4])
qed

text \<open>
  Counterexample to C3 as stated. With no barber named and none available, the result
  carries no alternatives although the alternative search finds some; and when the
  store has no such service the conflict type is \<open>service_unavailable\<close>.
\<close>

theorem no_staff_branch_counterexample:
  "\<not> truthy (check_barberId (requestOf None (clock 9 0) (clock 9 30) None))
   \<and> findAvailableBarbers
       (shop [barberA] [bookingOf ''b1'' ''A'' (clock 9 0) (clock 9 30) Confirmed])
       ''s1'' (clock 9 0) (clock 9 30) None = []
   \<and> suggestedAlternatives
       (checkBookingConflicts
          (shop [barberA] [bookingOf ''b1'' ''A'' (clock 9 0) (clock 9 30) Confirmed])
          (requestOf None (clock 9 0) (clock 9 30) None)) = None
   \<and> findAlternativeBarbers
       (shop [barberA] [bookingOf ''b1'' ''A'' (clock 9 0) (clock 9 30) Confirmed])
       ''s1'' (clock 9 0) (clock 9 30) None \<noteq> []
   \<and> findAvailableBarbers
       ((shop [barberA] [bookingOf ''b1'' ''A'' (clock 9 0) (clock 9 30) Confirmed])
          \<lparr>services := []\<rparr>)
       ''s1'' (clock 9 0) (clock 9 30) None = []
   \<and> conflictType
       (checkBookingConflicts
          ((shop [barberA] [bookingOf ''b1'' ''A'' (clock 9 0) (clock 9 30) Confirmed])
             \<lparr>services := []\<rparr>)
          (requestOf None (clock 9 0) (clock 9 30) None)) = Some service_unavailable"
  by code_simp








section \<open>Rescheduling\<close>

lemma conflictingBookings_without:
  assumes "B \<noteq> []"
  shows "conflictingBookings (db\<lparr>bookings := filter (\<lambda>k. booking_id k \<noteq> B) (bookings db)\<rparr>)
           st bid s e (Some B)
         = conflictingBookings db st bid s e (Some B)"
proof -
  have "filter (whereClause st bid s e (Some B)) (filter (\<lambda>k. booking_id k \<noteq> B) (bookings db))
        = filter (whereClause st bid s e (Some B)) (bookings db)"
    using assms by (auto simp: whereClause_def truthy_def intro: filter_cong)
  then show ?thesis by (simp add: conflictingBookings_def)
qed

lemma checkBarberAvailability_without:
  assumes "B \<noteq> []"
  shows "checkBarberAvailability (db\<lparr>bookings := filter (\<lambda>k. booking_id k \<noteq> B) (bookings db)\<rparr>)
           st bid s e (Some B)
         = checkBarberAvailability db st bid s e (Some B)"
  unfolding checkBarberAvailability_def conflictingBookings_without[OF assms]
  by simp

lemma findAvailableBarbers_without:
  assumes "B \<noteq> []"
  shows "findAvailableBarbers (db\<lparr>bookings := filter (\<lambda>k. booking_id k \<noteq> B) (bookings db)\<rparr>)
           st s e (Some B)
         = findAvailableBarbers db st s e (Some B)"
  by (simp add: findAvailableBarbers_def availableAmong_eq
        checkBarberAvailability_without[OF assms])

lemma scanSlots_without:
  assumes "B \<noteq> []"
  shows "scanSlots (db\<lparr>bookings := filter (\<lambda>k. booking_id k \<noteq> B) (bookings db)\<rparr>)
           st (Some B) acc slots
         = scanSlots db st (Some B) acc slots"
proof (induction slots arbitrary: acc)
  case Nil
  then show ?case by simp
next
  case (Cons slot slots)
  obtain s e where "slot = (s, e)" by (cases slot)
  then show ?case
    using Cons.IH by (simp add: Let_def findAvailableBarbers_without[OF assms])
qed

lemma findAlternativeBarbers_without:
  assumes "B \<noteq> []"
  shows "findAlternativeBarbers (db\<lparr>bookings := filter (\<lambda>k. booking_id k \<noteq> B) (bookings db)\<rparr>)
           st s e (Some B)
         = findAlternativeBarbers db st s e (Some B)"
  by (simp add: findAlternativeBarbers_def Let_def findAvailableBarbers_without[OF assms]
        scanSlots_without[OF assms] del: scanSlots.simps)

lemma checkBookingConflicts_without:
  assumes "B \<noteq> []" and "excludeBookingId c = Some B"
  shows "checkBookingConflicts (db\<lparr>bookings := filter (\<lambda>k. booking_id k \<noteq> B) (bookings db)\<rparr>) c
         = checkBookingConflicts db c"
proof -
  let ?db' = "db\<lparr>bookings := filter (\<lambda>k. booking_id k \<noteq> B) (bookings db)\<rparr>"
  have sv: "\<And>st sid. checkServiceAvailability ?db' st sid = checkServiceAvailability db st sid"
    by (simp add: checkServiceAvailability_def)
  have bh: "\<And>st s e. checkBusinessHours ?db' st s e = checkBusinessHours db st s e"
    by (simp add: checkBusinessHours_def)
  show ?thesis
    unfolding checkBookingConflicts_def Let_def assms(2) sv bh
      checkBarberAvailability_without[OF assms(1)]
      findAvailableBarbers_without[OF assms(1)]
      findAlternativeBarbers_without[OF assms(1)]
    by (rule refl)
qed

lemma conflictDetails_bookedAt:
  assumes "conflictDetails (checkBookingConflicts db c) = Some (BarberBookedAt hhmm)"
  shows "\<exists>k\<in>set (conflictingBookings db (check_storeId c) (the (check_barberId c))
                  (check_startTime c) (check_endTime c) (excludeBookingId c)).
           formatHHmm (booking_startTime k) = hhmm"
proof -
  have sv: "reason (checkServiceAvailability db st sid) \<noteq> Some (BarberBookedAt hhmm)" for st sid
    by (simp add: checkServiceAvailability_def split: option.splits)
  have bh: "hours_reason (checkBusinessHours db st s e) \<noteq> Some (BarberBookedAt hhmm)" for st s e
    by (simp add: checkBusinessHours_def Let_def split: option.splits)
  have ba: "reason (checkBarberAvailability db st bid s e x) = Some (BarberBookedAt hhmm) \<Longrightarrow>
            \<exists>k\<in>set (conflictingBookings db st bid s e x). formatHHmm (booking_startTime k) = hhmm"
    for st bid s e x
    by (auto simp: checkBarberAvailability_def split: option.splits if_splits list.splits)
  from assms show ?thesis
    unfolding checkBookingConflicts_def Let_def
    using sv bh ba by (auto split: if_splits)
qed

lemma writeBooking_cases:
  "writeBooking db i row = (failure (Some UpdateFailed) None, db)
   \<or> result_error (fst (writeBooking db i row)) = None"
  by (simp add: writeBooking_def split: option.splits)

text \<open>
  The path of \<open>updateBooking\<close> up to its conflict check: the stored row and its service
  resolve, some of service, time and barber is given, the new service resolves and the
  time validation passes. Every other path fails before the check or makes none.
\<close>

lemma updateBooking_before_check:
  "(\<exists>e\<in>{BookingNotFound, UpdateFailed, ServiceNotFound, BookingTooSoon, BookingTooFar}.
      updateBooking now db req = (failure (Some e) None, db))
   \<or> ((case update_startTime req of None \<Rightarrow> True
         | Some t \<Rightarrow> isValid (validateBookingTime now (Instant t)))
        \<and> result_error (fst (updateBooking now db req)) = None)
   \<or> (\<exists>c. excludeBookingId c = Some (update_bookingId req)
          \<and> (case update_startTime req of None \<Rightarrow> True
               | Some t \<Rightarrow> isValid (validateBookingTime now (Instant t)))
          \<and> hasConflict (checkBookingConflicts db c)
          \<and> updateBooking now db req
              = (failure (conflictDetails (checkBookingConflicts db c))
                   (suggestedAlternatives (checkBookingConflicts db c)), db))"
proof (cases "find (\<lambda>b. booking_id b = update_bookingId req) (bookings db)")
  case None
  then show ?thesis by (simp add: updateBooking_def)
next
  case ex: (Some existing)
  show ?thesis
  proof (cases "find (\<lambda>s. service_id s = booking_serviceId existing) (services db)")
    case None
    then show ?thesis using ex by (simp add: updateBooking_def)
  next
    case sv: (Some svc)
    show ?thesis
    proof (cases "truthy (update_serviceId req) \<or> update_startTime req \<noteq> None
                  \<or> truthy (update_barberId req)")
      case False
      then have "\<exists>row. updateBooking now db req = writeBooking db (update_bookingId req) row"
        using ex sv by (simp add: updateBooking_def Let_def; blast)
      moreover have "update_startTime req = None" using False by simp
      ultimately show ?thesis using writeBooking_cases by fastforce
    next
      case given: True
      show ?thesis
      proof (cases "if truthy (update_serviceId req)
                    then find (\<lambda>s. service_id s = the (update_serviceId req)
                                    \<and> service_storeId s = booking_storeId existing
                                    \<and> service_isActive s) (services db)
                    else Some svc")
        case None
        then show ?thesis using ex sv given by (simp add: updateBooking_def Let_def)
      next
        case ns: (Some newService)
        show ?thesis
        proof (cases "isValid (case update_startTime req of
                                 None \<Rightarrow> \<lparr>isValid = True, error = None\<rparr>
                               | Some t \<Rightarrow> validateBookingTime now (Instant t))")
          case False
          then obtain t where t: "update_startTime req = Some t"
            "\<not> isValid (validateBookingTime now (Instant t))"
            by (cases "update_startTime req") simp_all
          have "error (validateBookingTime now (Instant t)) = Some BookingTooSoon
                \<or> error (validateBookingTime now (Instant t)) = Some BookingTooFar"
            using t(2) by (simp add: validateBookingTime_def Let_def split: if_splits)
          then show ?thesis
            using ex sv given ns t by (auto simp: updateBooking_def Let_def)
        next
          case valid: True
          let ?c = "\<lparr>check_storeId = booking_storeId existing,
                     check_barberId = Some (if truthy (update_barberId req)
                                            then the (update_barberId req)
                                            else booking_barberId existing),
                     check_serviceId = service_id newService,
                     check_startTime = (case update_startTime req of
                                          None \<Rightarrow> booking_startTime existing | Some t \<Rightarrow> t),
                     check_endTime = addMinutes (case update_startTime req of
                                          None \<Rightarrow> booking_startTime existing | Some t \<Rightarrow> t)
                                       (duration newService),
                     excludeBookingId = Some (update_bookingId req)\<rparr>"
          have v: "case update_startTime req of None \<Rightarrow> True
                   | Some t \<Rightarrow> isValid (validateBookingTime now (Instant t))"
            using valid by (cases "update_startTime req") simp_all
          show ?thesis
          proof (cases "hasConflict (checkBookingConflicts db ?c)")
            case True
            have "updateBooking now db req
                  = (failure (conflictDetails (checkBookingConflicts db ?c))
                       (suggestedAlternatives (checkBookingConflicts db ?c)), db)"
              using ex sv given ns valid True by (simp add: updateBooking_def Let_def)
            then show ?thesis using v True
              by (intro disjI2 exI[of _ ?c]) simp
          next
            case False
            then have "\<exists>row. updateBooking now db req
                               = writeBooking db (update_bookingId req) row"
              using ex sv given ns valid by (simp add: updateBooking_def Let_def; blast)
            then show ?thesis using writeBooking_cases v by fastforce
          qed
        qed
      qed
    qed
  qed
qed

lemma updateBooking_bookedAt:
  assumes "result_error (fst (updateBooking now db req)) = Some (BarberBookedAt hhmm)"
  shows "\<exists>c. excludeBookingId c = Some (update_bookingId req)
            \<and> conflictDetails (checkBookingConflicts db c) = Some (BarberBookedAt hhmm)"
  using updateBooking_before_check[of now db req] assms
  by (auto simp: failure_def)

text \<open>
  Claim C8. For a conflict check that carries a (non-empty) \<open>excludeBookingId = B\<close>: no
  booking the conflict query returns is B; the whole result of \<open>checkBookingConflicts\<close> is
  the one it gives on the tables without B; and \<open>updateBooking\<close> of B, which passes B as
  the excluded booking, reports a booking conflict only against another, non-cancelled
  booking.
\<close>

theorem exclude_self_on_reschedule:
  assumes "B \<noteq> []"
  shows "(\<forall>k\<in>set (conflictingBookings db st bid s e (Some B)). booking_id k \<noteq> B)
   \<and> (excludeBookingId c = Some B \<longrightarrow>
        checkBookingConflicts db c
          = checkBookingConflicts
              (db\<lparr>bookings := filter (\<lambda>k. booking_id k \<noteq> B) (bookings db)\<rparr>) c)
   \<and> (update_bookingId req = B \<longrightarrow>
        (\<forall>hhmm. result_error (fst (updateBooking now db req)) = Some (BarberBookedAt hhmm) \<longrightarrow>
           (\<exists>k\<in>set (bookings db). booking_id k \<noteq> B \<and> booking_status k \<noteq> Cancelled
                \<and> formatHHmm (booking_startTime k) = hhmm)))"
proof (intro conjI impI allI)
  show "\<forall>k\<in>set (conflictingBookings db st bid s e (Some B)). booking_id k \<noteq> B"
    using assms by (auto simp: conflictingBookings_def whereClause_def truthy_def)
next
  assume "excludeBookingId c = Some B"
  then show "checkBookingConflicts db c
          = checkBookingConflicts
              (db\<lparr>bookings := filter (\<lambda>k. booking_id k \<noteq> B) (bookings db)\<rparr>) c"
    using checkBookingConflicts_without[OF assms] by simp
next
  fix hhmm
  assume b: "update_bookingId req = B"
    and err: "result_error (fst (updateBooking now db req)) = Some (BarberBookedAt hhmm)"
  obtain c where c: "excludeBookingId c = Some B"
    "conflictDetails (checkBookingConflicts db c) = Some (BarberBookedAt hhmm)"
    using updateBooking_bookedAt[OF err] b by auto
  obtain k where k: "k \<in> set (conflictingBookings db (check_storeId c) (the (check_barberId c))
                          (check_startTime c) (check_endTime c) (Some B))"
    "formatHHmm (booking_startTime k) = hhmm"
    using conflictDetails_bookedAt[OF c(2)] c(1) by auto
  have "k \<in> set (bookings db) \<and> booking_id k \<noteq> B \<and> booking_status k \<noteq> Cancelled"
    using k(1) assms by (auto simp: conflictingBookings_def whereClause_def truthy_def)
  then show "\<exists>k\<in>set (bookings db). booking_id k \<noteq> B \<and> booking_status k \<noteq> Cancelled
                \<and> formatHHmm (booking_startTime k) = hhmm"
    using k(2) by blast
qed

text \<open>
  Witness of C8. Barber A holds b1 at 10:00 and b2 at 11:00. Moving b1 onto 11:00 meets
  b2, not b1; checking b1 at its own time gives the result of the tables without b1, no
  conflict, and \<open>updateBooking\<close> of b1 to its own time succeeds.
\<close>

theorem exclude_self_on_reschedule_witness:
  "''b1'' \<noteq> []
   \<and> bookingOf ''b2'' ''A'' (clock 11 0) (clock 11 30) Confirmed
       \<in> set (conflictingBookings
           (shop [barberA] [bookingOf ''b1'' ''A'' (clock 10 0) (clock 10 30) Confirmed,
                            bookingOf ''b2'' ''A'' (clock 11 0) (clock 11 30) Confirmed])
           ''s1'' ''A'' (clock 11 0) (clock 11 30) (Some ''b1''))
   \<and> booking_id (bookingOf ''b2'' ''A'' (clock 11 0) (clock 11 30) Confirmed) \<noteq> ''b1''
   \<and> checkBookingConflicts
       (shop [barberA] [bookingOf ''b1'' ''A'' (clock 10 0) (clock 10 30) Confirmed,
                        bookingOf ''b2'' ''A'' (clock 11 0) (clock 11 30) Confirmed])
       (requestOf (Some ''A'') (clock 10 0) (clock 10 30) (Some ''b1''))
     = checkBookingConflicts
         ((shop [barberA] [bookingOf ''b1'' ''A'' (clock 10 0) (clock 10 30) Confirmed,
                           bookingOf ''b2'' ''A'' (clock 11 0) (clock 11 30) Confirmed])
            \<lparr>bookings := [bookingOf ''b2'' ''A'' (clock 11 0) (clock 11 30) Confirmed]\<rparr>)
         (requestOf (Some ''A'') (clock 10 0) (clock 10 30) (Some ''b1''))
   \<and> \<not> hasConflict (checkBookingConflicts
       (shop [barberA] [bookingOf ''b1'' ''A'' (clock 10 0) (clock 10 30) Confirmed,
                        bookingOf ''b2'' ''A'' (clock 11 0) (clock 11 30) Confirmed])
       (requestOf (Some ''A'') (clock 10 0) (clock 10 30) (Some ''b1'')))
   \<and> success (fst (updateBooking (clock 0 0)
       (shop [barberA] [bookingOf ''b1'' ''A'' (clock 10 0) (clock 10 30) Confirmed,
                        bookingOf ''b2'' ''A'' (clock 11 0) (clock 11 30) Confirmed])
       \<lparr>update_bookingId = ''b1'', update_barberId = None, update_serviceId = None,
        update_startTime = Some (clock 10 0), update_customerName = None,
        update_status = None\<rparr>))
   \<and> (\<exists>k\<in>set (bookings
          (shop [barberA] [bookingOf ''b1'' ''A'' (clock 10 0) (clock 10 30) Confirmed,
                           bookingOf ''b2'' ''A'' (clock 11 0) (clock 11 30) Confirmed])).
         booking_id k \<noteq> ''b1'' \<and> booking_status k \<noteq> Cancelled
         \<and> formatHHmm (booking_startTime k) = ''11:00'')"
proof -
  let ?b1 = "bookingOf ''b1'' ''A'' (clock 10 0) (clock 10 30) Confirmed"
  let ?b2 = "bookingOf ''b2'' ''A'' (clock 11 0) (clock 11 30) Confirmed"
  let ?db = "shop [barberA] [?b1, ?b2]"
  let ?c = "requestOf (Some ''A'') (clock 10 0) (clock 10 30) (Some ''b1'')"
  let ?move = "\<lparr>update_bookingId = ''b1'', update_barberId = None, update_serviceId = None,
        update_startTime = Some (clock 11 0), update_customerName = None,
        update_status = None\<rparr>"
  have ne: "''b1'' \<noteq> []" by simp
  note t = exclude_self_on_reschedule[OF ne, of ?db "''s1''" "''A''" "clock 11 0" "clock 11 30"
      ?c ?move "clock 0 0"]
  have mem: "?b2 \<in> set (conflictingBookings ?db ''s1'' ''A'' (clock 11 0) (clock 11 30)
                         (Some ''b1''))"
    by code_simp
  have 1: "booking_id ?b2 \<noteq> ''b1''"
    using t mem by blast
  have ex: "excludeBookingId ?c = Some ''b1''" by (simp add: requestOf_def)
  have flt: "?db\<lparr>bookings := filter (\<lambda>k. booking_id k \<noteq> ''b1'') (bookings ?db)\<rparr>
             = ?db\<lparr>bookings := [?b2]\<rparr>"
    by (simp add: shop_def bookingOf_def)
  have 2: "checkBookingConflicts ?db ?c = checkBookingConflicts (?db\<lparr>bookings := [?b2]\<rparr>) ?c"
    using t ex flt by metis
  have 3: "\<not> hasConflict (checkBookingConflicts ?db ?c)"
    by code_simp
  have 4: "success (fst (updateBooking (clock 0 0) ?db
       \<lparr>update_bookingId = ''b1'', update_barberId = None, update_serviceId = None,
        update_startTime = Some (clock 10 0), update_customerName = None,
        update_status = None\<rparr>))"
    by code_simp
  have id: "update_bookingId ?move = ''b1''" by simp
  have err: "result_error (fst (updateBooking (clock 0 0) ?db ?move))
             = Some (BarberBookedAt ''11:00'')"
    by code_simp
  have 5: "\<exists>k\<in>set (bookings ?db). booking_id k \<noteq> ''b1'' \<and> booking_status k \<noteq> Cancelled
         \<and> formatHHmm (booking_startTime k) = ''11:00''"
    using t id err by blast
  show ?thesis using ne mem 1 2 3 4 5 by blast
qed

section \<open>The booking time window\<close>

lemma validateBookingTime_valid_iff:
  "isValid (validateBookingTime now (Instant t))
     = (now + 30 * msPerMinute \<le> t \<and> t \<le> now + 90 * msPerDay)"
  by (auto simp: validateBookingTime_def Let_def addMinutes_def msPerMinute_def msPerDay_def
        dateBefore_def dateAfter_def)

lemma validateBookingTime_invalid_error:
  "\<not> isValid (validateBookingTime now (Instant t)) \<Longrightarrow>
   error (validateBookingTime now (Instant t))
     = Some (if t < now + 30 * msPerMinute then BookingTooSoon else BookingTooFar)"
  by (auto simp: validateBookingTime_def Let_def addMinutes_def msPerMinute_def msPerDay_def
        dateBefore_def dateAfter_def split: if_splits)

lemma validateBookingTime_invalid_date:
  "validateBookingTime now InvalidDate = \<lparr>isValid = True, error = None\<rparr>"
  by (simp add: validateBookingTime_def Let_def dateBefore_def dateAfter_def)

text \<open>
  On instants the time validation decides exactly as the window says. A creation request
  whose start is outside the window fails at once, with the time validation's error when
  its service resolves and with service-not-found otherwise; nothing is written and no
  barber is looked for.
\<close>

lemma createBooking_outside_window:
  assumes "create_startTime req = Instant t"
    and "\<not> (now + 30 * msPerMinute \<le> t \<and> t \<le> now + 90 * msPerDay)"
  shows "createBooking now newId db req
          = (failure
               (Some (case find (\<lambda>s. service_id s = create_serviceId req
                                     \<and> service_storeId s = create_storeId req
                                     \<and> service_isActive s) (services db) of
                        None \<Rightarrow> ServiceNotFound
                      | Some service \<Rightarrow>
                          if t < now + 30 * msPerMinute then BookingTooSoon else BookingTooFar))
               None, db)"
proof -
  have inv: "\<not> isValid (validateBookingTime now (Instant t))"
    using assms(2) by (simp add: validateBookingTime_valid_iff)
  show ?thesis
    using inv validateBookingTime_invalid_error[OF inv] assms(1)
    by (simp add: createBooking_def Let_def split: option.splits)
qed

text \<open>
  A creation request inside the window, with its service resolved, goes on to the
  assignment of a barber and the conflict check, and their outcome is its result.
\<close>

lemma createBooking_inside_window:
  assumes "create_startTime req = Instant t"
    and "now + 30 * msPerMinute \<le> t \<and> t \<le> now + 90 * msPerDay"
    and "find (\<lambda>s. service_id s = create_serviceId req \<and> service_storeId s = create_storeId req
                    \<and> service_isActive s) (services db) = Some service"
  shows "createBooking now newId db req
          = (case (if truthy (create_barberId req) then create_barberId req
                   else (case findAvailableBarber db (create_storeId req) t
                                 (addMinutes t (duration service)) of
                           [] \<Rightarrow> None
                         | a # _ \<Rightarrow> Some (fst a))) of
               None \<Rightarrow> (failure (Some NoBarberAvailable) None, db)
             | Some assignedBarberId \<Rightarrow>
                 if hasConflict (checkBookingConflicts db
                       \<lparr>check_storeId = create_storeId req,
                        check_barberId = Some assignedBarberId,
                        check_serviceId = create_serviceId req, check_startTime = t,
                        check_endTime = addMinutes t (duration service),
                        excludeBookingId = None\<rparr>)
                 then (failure
                         (conflictDetails (checkBookingConflicts db
                            \<lparr>check_storeId = create_storeId req,
                             check_barberId = Some assignedBarberId,
                             check_serviceId = create_serviceId req, check_startTime = t,
                             check_endTime = addMinutes t (duration service),
                             excludeBookingId = None\<rparr>))
                         (suggestedAlternatives (checkBookingConflicts db
                            \<lparr>check_storeId = create_storeId req,
                             check_barberId = Some assignedBarberId,
                             check_serviceId = create_serviceId req, check_startTime = t,
                             check_endTime = addMinutes t (duration service),
                             excludeBookingId = None\<rparr>)), db)
                 else insertBooking db newId (create_storeId req) assignedBarberId
                        (create_serviceId req) (create_customerName req) (Instant t)
                        (Instant (addMinutes t (duration service))))"
proof -
  have v: "isValid (validateBookingTime now (Instant t))"
    using assms(2) by (simp add: validateBookingTime_valid_iff)
  show ?thesis
    using v assms(1,3)
    by (simp add: createBooking_def Let_def addMinutesDate_def findAvailableBarberAt_def
          checkBookingConflictsAt_def split: option.splits)
qed

text \<open>
  An update that gives a start outside the window fails before its conflict check and
  writes nothing: with the time validation's error when the stored booking, its service
  and the new service, if one is given, resolve, and with the error of the first of
  these that does not.
\<close>

lemma updateBooking_outside_window:
  assumes "update_startTime ureq = Some t"
    and "\<not> (now + 30 * msPerMinute \<le> t \<and> t \<le> now + 90 * msPerDay)"
  shows "updateBooking now db ureq
          = (failure
               (Some (case find (\<lambda>b. booking_id b = update_bookingId ureq) (bookings db) of
                        None \<Rightarrow> BookingNotFound
                      | Some existing \<Rightarrow>
                          (case find (\<lambda>s. service_id s = booking_serviceId existing)
                                  (services db) of
                             None \<Rightarrow> UpdateFailed
                           | Some existingService \<Rightarrow>
                               (case (if truthy (update_serviceId ureq)
                                      then find (\<lambda>s. service_id s = the (update_serviceId ureq)
                                                      \<and> service_storeId s = booking_storeId existing
                                                      \<and> service_isActive s) (services db)
                                      else Some existingService) of
                                  None \<Rightarrow> ServiceNotFound
                                | Some newService \<Rightarrow>
                                    if t < now + 30 * msPerMinute then BookingTooSoon
                                    else BookingTooFar))))
               None, db)"
proof -
  have inv: "\<not> isValid (validateBookingTime now (Instant t))"
    using assms(2) by (simp add: validateBookingTime_valid_iff)
  note err = validateBookingTime_invalid_error[OF inv]
  show ?thesis
  proof (cases "find (\<lambda>b. booking_id b = update_bookingId ureq) (bookings db)")
    case None
    then show ?thesis by (simp add: updateBooking_def)
  next
    case ex: (Some existing)
    show ?thesis
    proof (cases "find (\<lambda>s. service_id s = booking_serviceId existing) (services db)")
      case None
      then show ?thesis using ex by (simp add: updateBooking_def)
    next
      case sv: (Some svc)
      show ?thesis
      proof (cases "if truthy (update_serviceId ureq)
                    then find (\<lambda>s. service_id s = the (update_serviceId ureq)
                                    \<and> service_storeId s = booking_storeId existing
                                    \<and> service_isActive s) (services db)
                    else Some svc")
        case None
        then show ?thesis using ex sv assms(1) by (simp add: updateBooking_def Let_def)
      next
        case (Some newService)
        then show ?thesis
          using ex sv assms(1) inv err by (simp add: updateBooking_def Let_def)
      qed
    qed
  qed
qed

text \<open>On the sample store: too soon, within the window and booked, within and taken.\<close>

lemma createBooking_samples:
  "createBooking (clock 0 0) ''n1'' (shop [barberA] [])
     \<lparr>create_storeId = ''s1'', create_barberId = Some ''A'', create_serviceId = ''cut'',
      create_startTime = Instant (clock 0 10), create_customerName = ''Lee''\<rparr>
   = (failure (Some BookingTooSoon) None, shop [barberA] [])"
  "createBooking (clock 0 0) ''n1'' (shop [barberA] [])
     \<lparr>create_storeId = ''s1'', create_barberId = None, create_serviceId = ''cut'',
      create_startTime = Instant (clock 10 0), create_customerName = ''Lee''\<rparr>
   = (\<lparr>success = True,
       booking = Some \<lparr>summary_id = ''n1'', summary_barberId = ''A'',
                       summary_barberName = ''Ann'', summary_serviceName = ''Cut'',
                       summary_startTime = clock 10 0, summary_endTime = clock 10 30,
                       summary_customerName = ''Lee'', summary_status = Confirmed\<rparr>,
       result_error = None, alternatives = None\<rparr>,
      shop [barberA]
        [\<lparr>booking_id = ''n1'', booking_storeId = ''s1'', booking_barberId = ''A'',
          booking_serviceId = ''cut'', booking_customerName = ''Lee'',
          booking_startTime = clock 10 0, booking_endTime = clock 10 30,
          booking_status = Confirmed\<rparr>])"
  "createBooking (clock 0 0) ''n1''
     (shop [barberA] [bookingOf ''b1'' ''A'' (clock 10 0) (clock 10 30) Confirmed])
     \<lparr>create_storeId = ''s1'', create_barberId = Some ''A'', create_serviceId = ''cut'',
      create_startTime = Instant (clock 10 0), create_customerName = ''Lee''\<rparr>
   = (failure (Some (BarberBookedAt ''10:00''))
        (Some [alternativeOf barberA (clock 9 30) (clock 10 0),
               alternativeOf barberA (clock 10 30) (clock 11 0),
               alternativeOf barberA (clock 9 0) (clock 9 30),
               alternativeOf barberA (clock 11 0) (clock 11 30)]),
      shop [barberA] [bookingOf ''b1'' ''A'' (clock 10 0) (clock 10 30) Confirmed])"
  "updateBooking (clock 0 0)
     (shop [barberA] [bookingOf ''b1'' ''A'' (clock 10 0) (clock 10 30) Confirmed])
     \<lparr>update_bookingId = ''b1'', update_barberId = None, update_serviceId = None,
      update_startTime = Some (clock 0 10), update_customerName = None,
      update_status = None\<rparr>
   = (failure (Some BookingTooSoon) None,
      shop [barberA] [bookingOf ''b1'' ''A'' (clock 10 0) (clock 10 30) Confirmed])"
  by code_simp+

text \<open>
  Claim C10, at a failing input. A request whose start is an invalid date, as the public
  booking route builds from a body without a date, is neither 30 minutes nor 90 days
  from the clock reading, yet the time validation accepts it. With a barber named the
  creation then runs the conflict check and fails with that check's own error; with none
  named it runs the search for an available barber and fails for want of one.
\<close>

theorem invalid_date_passes_time_validation:
  "validateBookingTime (clock 0 0) InvalidDate = \<lparr>isValid = True, error = None\<rparr>
   \<and> createBooking (clock 0 0) ''n1'' (shop [barberA] [])
       \<lparr>create_storeId = ''s1'', create_barberId = Some ''A'', create_serviceId = ''cut'',
        create_startTime = InvalidDate, create_customerName = ''Lee''\<rparr>
     = (failure (Some ConflictCheckFailed) None, shop [barberA] [])
   \<and> createBooking (clock 0 0) ''n1'' (shop [barberA] [])
       \<lparr>create_storeId = ''s1'', create_barberId = None, create_serviceId = ''cut'',
        create_startTime = InvalidDate, create_customerName = ''Lee''\<rparr>
     = (failure (Some NoBarberAvailable) None, shop [barberA] [])"
  by code_simp

section \<open>Bounds on the results\<close>

lemma barberSlotLoop_barber:
  "sl \<in> set (barberSlotLoop barber businessEnd d existing cur) \<Longrightarrow>
   slot_barberId sl = barber_id barber"
proof (induction barber businessEnd d existing cur rule: barberSlotLoop.induct)
  case (1 barber businessEnd d existing cur)
  show ?case
  proof (cases "cur < businessEnd")
    case False
    then show ?thesis using "1.prems" by (subst (asm) barberSlotLoop.simps) simp
  next
    case True
    from "1.prems" consider
      "sl \<in> set (barberSlotLoop barber businessEnd d existing (addMinutes cur 30))"
      | "slot_barberId sl = barber_id barber"
      using True
      by (subst (asm) barberSlotLoop.simps) (auto simp: Let_def split: if_splits)
    then show ?thesis
    proof cases
      case 1
      then show ?thesis using "1.IH"[OF True refl] by simp
    next
      case 2
      then show ?thesis .
    qed
  qed
qed

lemma generateBarberTimeSlots_barber:
  "sl \<in> set (generateBarberTimeSlots barber day hours d existing) \<Longrightarrow>
   slot_barberId sl = barber_id barber"
  by (auto simp: generateBarberTimeSlots_def barberSlotLoop_barber split: option.splits)

lemma calendar_slots_barber:
  assumes "calendarGetAvailableTimeSlots db q = Inr slots" and "sl \<in> set slots"
  shows "\<exists>b\<in>set (getAvailableBarbers db (query_storeId q) (query_barberId q)).
           slot_barberId sl = barber_id b"
proof (cases "find (\<lambda>s. service_id s = query_serviceId q \<and> service_storeId s = query_storeId q
                        \<and> service_isActive s) (services db)")
  case None
  then show ?thesis using assms(1) by (simp add: calendarGetAvailableTimeSlots_def)
next
  case sv: (Some service)
  show ?thesis
  proof (cases "getBusinessHours db (query_storeId q) (query_date q)")
    case None
    then show ?thesis
      using assms sv by (auto simp: calendarGetAvailableTimeSlots_def Let_def)
  next
    case bh: (Some hours)
    show ?thesis
    proof (cases "getAvailableBarbers db (query_storeId q) (query_barberId q) = []")
      case True
      then show ?thesis
        using assms sv bh by (auto simp: calendarGetAvailableTimeSlots_def Let_def)
    next
      case False
      then have "slots = sort_key slot_startTime
        (concat (map (\<lambda>barber.
           generateBarberTimeSlots barber (query_date q) hours
             (case query_duration q of None \<Rightarrow> duration service
              | Some d \<Rightarrow> if d = 0 then duration service else d)
             (filter (\<lambda>b. booking_barberId b = barber_id barber)
                (getExistingBookings db (query_storeId q) (query_date q)
                   (map barber_id
                      (getAvailableBarbers db (query_storeId q) (query_barberId q))))))
           (getAvailableBarbers db (query_storeId q) (query_barberId q))))"
        using assms(1) sv bh by (simp add: calendarGetAvailableTimeSlots_def Let_def)
      then show ?thesis
        using assms(2) by (auto dest: generateBarberTimeSlots_barber)
    qed
  qed
qed

lemma distinct_ids_same_barber:
  assumes "distinct (map barber_id bs)" and "b \<in> set bs" and "b' \<in> set bs"
    and "barber_id b = barber_id b'"
  shows "b = b'"
  using assms by (meson distinct_map inj_onD)

text \<open>
  Claim C6, as amended. The alternative search returns at most five entries, each naming
  an active barber of the store. Every slot of the slot listing
  (\<open>CalendarService.getAvailableTimeSlots\<close>) names an active barber of the store too; the
  listing has no bound on its length. Where barber ids are distinct, no inactive barber
  bears a returned id.
\<close>

theorem results_are_active_staff:
  "length (findAlternativeBarbers db st s e x) \<le> 5
   \<and> (\<forall>a\<in>set (findAlternativeBarbers db st s e x).
        (\<exists>b\<in>set (barbers db). barber_id b = alt_barberId a \<and> barber_storeId b = st
            \<and> barber_isActive b)
        \<and> (distinct (map barber_id (barbers db)) \<longrightarrow>
             \<not> (\<exists>b\<in>set (barbers db). barber_id b = alt_barberId a \<and> \<not> barber_isActive b)))
   \<and> (\<forall>slots. calendarGetAvailableTimeSlots db q = Inr slots \<longrightarrow>
        (\<forall>sl\<in>set slots.
           (\<exists>b\<in>set (barbers db). barber_id b = slot_barberId sl
               \<and> barber_storeId b = query_storeId q \<and> barber_isActive b)
           \<and> (distinct (map barber_id (barbers db)) \<longrightarrow>
                \<not> (\<exists>b\<in>set (barbers db). barber_id b = slot_barberId sl
                       \<and> \<not> barber_isActive b))))"
proof (intro conjI allI impI ballI)
  show "length (findAlternativeBarbers db st s e x) \<le> 5"
    by (simp add: findAlternativeBarbers_def Let_def del: scanSlots.simps)
next
  fix a assume "a \<in> set (findAlternativeBarbers db st s e x)"
  then show "\<exists>b\<in>set (barbers db). barber_id b = alt_barberId a \<and> barber_storeId b = st
            \<and> barber_isActive b"
    using alternatives_are_free_barbers by blast
next
  fix a assume a: "a \<in> set (findAlternativeBarbers db st s e x)"
    and d: "distinct (map barber_id (barbers db))"
  obtain b where b: "b \<in> set (barbers db)" "barber_id b = alt_barberId a" "barber_isActive b"
    using alternatives_are_free_barbers[OF a] by blast
  show "\<not> (\<exists>b\<in>set (barbers db). barber_id b = alt_barberId a \<and> \<not> barber_isActive b)"
    using distinct_ids_same_barber[OF d b(1)] b(2,3) by metis
next
  fix slots sl
  assume c: "calendarGetAvailableTimeSlots db q = Inr slots" and sl: "sl \<in> set slots"
  show "\<exists>b\<in>set (barbers db). barber_id b = slot_barberId sl
               \<and> barber_storeId b = query_storeId q \<and> barber_isActive b"
    using calendar_slots_barber[OF c sl] by (auto simp: getAvailableBarbers_def)
next
  fix slots sl
  assume c: "calendarGetAvailableTimeSlots db q = Inr slots" and sl: "sl \<in> set slots"
    and d: "distinct (map barber_id (barbers db))"
  obtain b where b: "b \<in> set (barbers db)" "barber_id b = slot_barberId sl" "barber_isActive b"
    using calendar_slots_barber[OF c sl] by (auto simp: getAvailableBarbers_def)
  show "\<not> (\<exists>b\<in>set (barbers db). barber_id b = slot_barberId sl \<and> \<not> barber_isActive b)"
    using distinct_ids_same_barber[OF d b(1)] b(2,3) by metis
qed

text \<open>
  Witness of C6: barber B as the same-time alternative, and B's single four-hour slot.
\<close>

theorem results_are_active_staff_witness:
  "alternativeOf barberB (clock 10 0) (clock 10 30)
     \<in> set (findAlternativeBarbers
         (shop [barberA, barberB] [bookingOf ''b1'' ''A'' (clock 10 0) (clock 10 30) Confirmed])
         ''s1'' (clock 10 0) (clock 10 30) None)
   \<and> (\<exists>b\<in>set (barbers
         (shop [barberA, barberB] [bookingOf ''b1'' ''A'' (clock 10 0) (clock 10 30) Confirmed])).
        barber_id b = ''B'' \<and> barber_storeId b = ''s1'' \<and> barber_isActive b)
   \<and> calendarGetAvailableTimeSlots
       (shop [barberA, barberB] [bookingOf ''b1'' ''A'' (clock 10 0) (clock 10 30) Confirmed])
       \<lparr>query_storeId = ''s1'', query_date = monday, query_serviceId = ''cut'',
        query_barberId = Some ''B'', query_duration = Some 240\<rparr>
     = Inr [\<lparr>slot_startTime = clock 9 0, slot_endTime = clock 13 0, slot_barberId = ''B'',
             slot_barberName = ''Bo'', slot_isAvailable = True\<rparr>]
   \<and> \<not> (\<exists>b\<in>set (barbers
         (shop [barberA, barberB] [bookingOf ''b1'' ''A'' (clock 10 0) (clock 10 30) Confirmed])).
        barber_id b = ''B'' \<and> \<not> barber_isActive b)"
proof -
  let ?db = "shop [barberA, barberB] [bookingOf ''b1'' ''A'' (clock 10 0) (clock 10 30) Confirmed]"
  let ?q = "\<lparr>query_storeId = ''s1'', query_date = monday, query_serviceId = ''cut'',
        query_barberId = Some ''B'', query_duration = Some 240\<rparr>"
  let ?sl = "\<lparr>slot_startTime = clock 9 0, slot_endTime = clock 13 0, slot_barberId = ''B'',
             slot_barberName = ''Bo'', slot_isAvailable = True\<rparr>"
  let ?a = "alternativeOf barberB (clock 10 0) (clock 10 30)"
  note t = results_are_active_staff[of ?db "''s1''" "clock 10 0" "clock 10 30" None ?q]
  have mem: "?a \<in> set (findAlternativeBarbers ?db ''s1'' (clock 10 0) (clock 10 30) None)"
    by code_simp
  have ida: "alt_barberId ?a = ''B''" by (simp add: alternativeOf_def barberB_def)
  have cal: "calendarGetAvailableTimeSlots ?db ?q = Inr [?sl]"
    by code_simp
  have d: "distinct (map barber_id (barbers ?db))"
    by code_simp
  have 1: "\<exists>b\<in>set (barbers ?db). barber_id b = ''B'' \<and> barber_storeId b = ''s1''
             \<and> barber_isActive b"
    using t mem ida by metis
  have "?sl \<in> set [?sl]" by simp
  then have 2: "\<not> (\<exists>b\<in>set (barbers ?db). barber_id b = slot_barberId ?sl
                     \<and> \<not> barber_isActive b)"
    using t cal d by blast
  then have two: "\<not> (\<exists>b\<in>set (barbers ?db). barber_id b = ''B'' \<and> \<not> barber_isActive b)"
    by simp
  show ?thesis using mem 1 cal two by blast
qed

text \<open>
  Counterexample to C6 as stated: for one barber, a 30-minute service and the hours 09:00
  to 13:00 the slot listing has eight entries.
\<close>

theorem slot_listing_exceeds_five:
  "map_sum (\<lambda>e. e) length
     (calendarGetAvailableTimeSlots (shop [barberA] [])
        \<lparr>query_storeId = ''s1'', query_date = monday, query_serviceId = ''cut'',
         query_barberId = None, query_duration = None\<rparr>) = Inr 8
   \<and> (5::nat) < 8"
  by code_simp

end
